theory Spec2Isabelle
  imports Main "HOL-Library.Sublist"
begin

section \<open>Strings\<close>

text \<open>
  A source string is a sequence of code units; the model has the code units below 256,
  read as the characters U+0000 to U+00FF. In that range \<open>toLowerCase\<close> maps \<open>A\<close>..\<open>Z\<close>
  and the accented capitals U+00C0..U+00DE (but the multiplication sign U+00D7) to the
  character 32 places further, and white space is tab, line feed, vertical tab, form feed,
  carriage return, space and the no-break space U+00A0. Characters from U+0100 on are
  outside the model.
\<close>

definition lowerChar :: "char \<Rightarrow> char" where
  "lowerChar c =
     (let n = (of_char c :: nat)
      in if (65 \<le> n \<and> n \<le> 90) \<or> (192 \<le> n \<and> n \<le> 222 \<and> n \<noteq> 215)
         then char_of (n + 32) else c)"

definition toLowerCase :: "string \<Rightarrow> string" where
  "toLowerCase s = map lowerChar s"

text \<open>\<open>s.includes(k)\<close>: \<open>k\<close> occurs in \<open>s\<close> as a contiguous run of characters.\<close>

definition includes_str :: "string \<Rightarrow> string \<Rightarrow> bool" where
  "includes_str s k = sublist k s"

text \<open>The white space of \<open>trim\<close> and of \<open>\s\<close>.\<close>

definition isSpace :: "char \<Rightarrow> bool" where
  "isSpace c =
     (let n = (of_char c :: nat)
      in n = 32 \<or> (9 \<le> n \<and> n \<le> 13) \<or> n = 160)"

definition trim :: "string \<Rightarrow> string" where
  "trim s = rev (dropWhile isSpace (rev (dropWhile isSpace s)))"

section \<open>The chat message log\<close>

record ChatMessage =
  username :: string
  content :: string
  timestamp :: nat

definition MAX_MESSAGES :: nat where
  "MAX_MESSAGES = 100"

text \<open>
  \<open>addChatMessage\<close> pushes the new message and then shifts the oldest one out when the
  log has grown beyond \<open>MAX_MESSAGES\<close>. The reading of the clock (\<open>new Date()\<close>) is an
  argument.
\<close>

definition addChatMessage :: "ChatMessage list \<Rightarrow> string \<Rightarrow> string \<Rightarrow> nat \<Rightarrow> ChatMessage list" where
  "addChatMessage recentMessages user text now =
     (let pushed = recentMessages @ [\<lparr>username = user, content = text, timestamp = now\<rparr>]
      in if length pushed > MAX_MESSAGES then tl pushed else pushed)"

text \<open>A run of appends, each given as (username, content, clock reading).\<close>

fun addAll :: "ChatMessage list \<Rightarrow> (string \<times> string \<times> nat) list \<Rightarrow> ChatMessage list" where
  "addAll recentMessages [] = recentMessages"
| "addAll recentMessages ((u, c, t) # rest) = addAll (addChatMessage recentMessages u c t) rest"

definition mkMessage :: "string \<times> string \<times> nat \<Rightarrow> ChatMessage" where
  "mkMessage e = (case e of (u, c, t) \<Rightarrow> \<lparr>username = u, content = c, timestamp = t\<rparr>)"

text \<open>\<open>getRecentChatLog(n)\<close> is \<open>recentMessages.slice(-n)\<close> rendered as lines; \<open>slice(-0)\<close> is
  the whole array.\<close>

definition formatMessage :: "ChatMessage \<Rightarrow> string" where
  "formatMessage m = username m @ '': '' @ content m"

definition getRecentChatLog :: "ChatMessage list \<Rightarrow> nat \<Rightarrow> string list" where
  "getRecentChatLog recentMessages n =
     map formatMessage
       (if n = 0 then recentMessages else drop (length recentMessages - n) recentMessages)"

section \<open>Thrown values\<close>

text \<open>
  What a \<open>throw\<close> or a rejected promise carries: the object \<open>{error, status, message}\<close>
  that \<open>makeTwitchApiCall\<close> throws, an \<open>Error\<close> object of the runtime or of a library
  (with its message), a plain string (a rejection without a \<open>message\<close> property), or
  \<open>null\<close> or \<open>undefined\<close>, of which no property can be read.
\<close>

datatype thrown =
    TwitchApiError string nat string
  | JsError string
  | Rejected string
  | ThrownNull
  | ThrownUndefined

fun nullishThrown :: "thrown \<Rightarrow> bool" where
  "nullishThrown ThrownNull = True"
| "nullishThrown ThrownUndefined = True"
| "nullishThrown e = False"

text \<open>The \<open>TypeError\<close> of reading the property \<open>k\<close> of \<open>null\<close> or \<open>undefined\<close>.\<close>

definition cannotRead :: "string \<Rightarrow> string \<Rightarrow> thrown" where
  "cannotRead what k =
     JsError (''Cannot read properties of '' @ what @ '' (reading '' @ [CHR 0x27] @ k @ [CHR 0x27]
              @ '')'')"

section \<open>Target resolution\<close>

definition DESCRIPTOR_KEYWORDS :: "(string \<times> string list) list" where
  "DESCRIPTOR_KEYWORDS =
     [(''toxic'', [''idiot'', ''stupid'', ''hate'', ''kill'', ''dumb'', ''trash'', ''noob'',
                  ''loser'', ''shut up'', ''annoying'', ''toxic'', ''rude'', ''mean'', ''sucks'',
                  ''bad'', ''worst'', ''report'', ''ban'']),
      (''spam'', [''buy followers'', ''free'', ''promo'', ''visit'', ''http'', ''www'', ''spam'',
                 ''emote'', ''caps'', ''repeated'']),
      (''rude'', [''shut up'', ''idiot'', ''stupid'', ''dumb'', ''annoying'', ''rude'', ''mean'',
                 ''trash'', ''loser'', ''bad'', ''worst''])]"

text \<open>
  \<open>DESCRIPTOR_KEYWORDS[descriptor.toLowerCase()] || [descriptor]\<close>. The table is an object
  literal, so the lookup also sees the properties inherited from \<open>Object.prototype\<close>; the
  two of them whose names are lower case yield a value that is truthy and not iterable,
  here \<open>None\<close>.
\<close>

definition inheritedKeys :: "string list" where
  "inheritedKeys = [''constructor'', ''__proto__'']"

definition descriptorKeywords :: "string \<Rightarrow> string list option" where
  "descriptorKeywords descriptor =
     (case map_of DESCRIPTOR_KEYWORDS (toLowerCase descriptor) of
        Some keywords \<Rightarrow> Some keywords
      | None \<Rightarrow>
          if toLowerCase descriptor \<in> set inheritedKeys then None else Some [descriptor])"

text \<open>
  \<open>userScores\<close> is a \<open>Map\<close>: its entries are kept in the order in which the keys were
  first set, and setting a key that is present keeps its place.
\<close>

fun bump :: "string \<Rightarrow> (string \<times> nat) list \<Rightarrow> (string \<times> nat) list" where
  "bump u [] = [(u, 1)]"
| "bump u ((v, n) # es) = (if v = u then (v, n + 1) # es else (v, n) # bump u es)"

fun scoreKeywords :: "string \<Rightarrow> string \<Rightarrow> string list \<Rightarrow> (string \<times> nat) list \<Rightarrow> (string \<times> nat) list" where
  "scoreKeywords u text [] userScores = userScores"
| "scoreKeywords u text (keyword # keywords) userScores =
     scoreKeywords u text keywords
       (if includes_str text keyword then bump u userScores else userScores)"

fun scoreMessages :: "string list \<Rightarrow> ChatMessage list \<Rightarrow> (string \<times> nat) list \<Rightarrow> (string \<times> nat) list" where
  "scoreMessages keywords [] userScores = userScores"
| "scoreMessages keywords (m # ms) userScores =
     scoreMessages keywords ms
       (scoreKeywords (username m) (toLowerCase (content m)) keywords userScores)"

text \<open>
  The entries are sorted with the comparator \<open>b - a\<close> on the scores, that is by
  descending score; \<open>Array.prototype.sort\<close> is stable, as \<open>sort_key\<close> is.
\<close>

definition findUserByDescriptor :: "ChatMessage list \<Rightarrow> string \<Rightarrow> thrown + string option" where
  "findUserByDescriptor recentMessages descriptor =
     (case descriptorKeywords descriptor of
        None \<Rightarrow>
          if recentMessages = [] then Inr None
          else Inl (JsError ''keywords is not iterable'')
      | Some keywords \<Rightarrow>
          (let userScores = scoreMessages keywords recentMessages []
           in if userScores = [] then Inr None
              else Inr (Some (fst (hd (sort_key (\<lambda>e. - int (snd e)) userScores))))))"

definition isWordChar :: "char \<Rightarrow> bool" where
  "isWordChar c =
     (let n = (of_char c :: nat)
      in (97 \<le> n \<and> n \<le> 122) \<or> (65 \<le> n \<and> n \<le> 90) \<or> (48 \<le> n \<and> n \<le> 57) \<or> n = 95)"

text \<open>The test \<open>/^[a-zA-Z0-9_]{3,25}$/\<close>.\<close>

definition literalUsernameShape :: "string \<Rightarrow> bool" where
  "literalUsernameShape s = (3 \<le> length s \<and> length s \<le> 25 \<and> list_all isWordChar s)"

text \<open>
  \<open>input.replace(/.*user named\s+/, "")\<close>. \<open>matchUserNamed s\<close> matches the expression at
  the start of \<open>s\<close> and returns what follows the match: the dot takes any character but a
  line terminator and is greedy, so the longest run of them is tried first; \<open>\s+\<close> takes
  all the white space that follows. \<open>replaceUserNamed\<close> removes the match at the leftmost
  position where there is one.
\<close>

definition isLineTerminator :: "char \<Rightarrow> bool" where
  "isLineTerminator c = ((of_char c :: nat) = 10 \<or> (of_char c :: nat) = 13)"

definition matchLiteral :: "string \<Rightarrow> string option" where
  "matchLiteral s =
     (if prefix ''user named'' s \<and> drop 10 s \<noteq> [] \<and> isSpace (hd (drop 10 s))
      then Some (dropWhile isSpace (drop 10 s)) else None)"

fun matchUserNamed :: "string \<Rightarrow> string option" where
  "matchUserNamed [] = None"
| "matchUserNamed (c # cs) =
     (case (if isLineTerminator c then None else matchUserNamed cs) of
        Some r \<Rightarrow> Some r
      | None \<Rightarrow> matchLiteral (c # cs))"

fun replaceUserNamed :: "string \<Rightarrow> string" where
  "replaceUserNamed [] = []"
| "replaceUserNamed (c # cs) =
     (case matchUserNamed (c # cs) of
        Some r \<Rightarrow> r
      | None \<Rightarrow> c # replaceUserNamed cs)"

definition extractUsername :: "string \<Rightarrow> string" where
  "extractUsername input = trim (replaceUserNamed input)"

text \<open>
  \<open>resolveModerationTarget\<close> returns a string or \<open>null\<close> (\<open>None\<close>);
  \<open>found?.username || username\<close> falls back to the candidate when nothing is found or
  the found username is empty.
\<close>

definition resolveModerationTarget :: "ChatMessage list \<Rightarrow> string \<Rightarrow> string option" where
  "resolveModerationTarget recentMessages input =
     (if trim input = [] then None
      else
        (let lowered = toLowerCase input
         in if includes_str lowered ''user named'' \<or> literalUsernameShape (trim input)
            then
              (let candidate = extractUsername input
               in case find (\<lambda>m. includes_str (toLowerCase (username m)) (toLowerCase candidate))
                         recentMessages of
                    Some found \<Rightarrow> Some (if username found \<noteq> [] then username found else candidate)
                  | None \<Rightarrow> Some candidate)
            else None))"

section \<open>Timeout duration\<close>

definition guessTimeoutDuration :: "string \<Rightarrow> nat" where
  "guessTimeoutDuration reason =
     (let lowerReason = toLowerCase reason
      in if includes_str lowerReason ''spam'' \<or> includes_str lowerReason ''caps''
            \<or> includes_str lowerReason ''emote'' then 300
         else if includes_str lowerReason ''toxic'' \<or> includes_str lowerReason ''rude''
            \<or> includes_str lowerReason ''mean'' then 1800
         else if includes_str lowerReason ''severe'' \<or> includes_str lowerReason ''serious'' then 3600
         else 600)"

section \<open>Values, requests and the outside world\<close>

text \<open>
  Values of type \<open>any\<close>: tool parameters, request bodies and parsed responses. Numbers are
  the integers of absolute value below \<open>10^21\<close>, which are printed in decimal digits;
  fractions and larger numbers are outside the model, as are the properties that an object
  inherits from its prototype.
\<close>

datatype jsval =
    JUndefined
  | JNull
  | JBool bool
  | JNum int
  | JStr string
  | JArr "jsval list"
  | JObj "(string \<times> jsval) list"

fun truthy :: "jsval \<Rightarrow> bool" where
  "truthy JUndefined = False"
| "truthy JNull = False"
| "truthy (JBool b) = b"
| "truthy (JNum n) = (n \<noteq> 0)"
| "truthy (JStr s) = (s \<noteq> [])"
| "truthy (JArr xs) = True"
| "truthy (JObj kvs) = True"

fun nullish :: "jsval \<Rightarrow> bool" where
  "nullish JUndefined = True"
| "nullish JNull = True"
| "nullish v = False"

fun showNat :: "nat \<Rightarrow> string" where
  "showNat n =
     (if n < 10 then [char_of (48 + n)]
      else showNat (n div 10) @ [char_of (48 + n mod 10)])"

declare showNat.simps [simp del]

definition showInt :: "int \<Rightarrow> string" where
  "showInt i = (if i < 0 then CHR ''-'' # showNat (nat (- i)) else showNat (nat i))"

fun joinWith :: "string \<Rightarrow> string list \<Rightarrow> string" where
  "joinWith sep [] = []"
| "joinWith sep [x] = x"
| "joinWith sep (x # y # ys) = x @ sep @ joinWith sep (y # ys)"

text \<open>The string that a template literal or \<open>String(v)\<close> makes of a value.\<close>

fun toStr :: "jsval \<Rightarrow> string" where
  "toStr JUndefined = ''undefined''"
| "toStr JNull = ''null''"
| "toStr (JBool b) = (if b then ''true'' else ''false'')"
| "toStr (JNum n) = showInt n"
| "toStr (JStr s) = s"
| "toStr (JArr xs) = joinWith '','' (map (\<lambda>x. if nullish x then [] else toStr x) xs)"
| "toStr (JObj kvs) = ''[object Object]''"

text \<open>Reading a property or an index of a value that is neither \<open>undefined\<close> nor \<open>null\<close>.\<close>

fun getProp :: "jsval \<Rightarrow> string \<Rightarrow> jsval" where
  "getProp (JObj kvs) k = (case map_of kvs k of Some v \<Rightarrow> v | None \<Rightarrow> JUndefined)"
| "getProp (JArr xs) k = (if k = ''length'' then JNum (int (length xs)) else JUndefined)"
| "getProp (JStr s) k = (if k = ''length'' then JNum (int (length s)) else JUndefined)"
| "getProp v k = JUndefined"

fun getIndex :: "jsval \<Rightarrow> nat \<Rightarrow> jsval" where
  "getIndex (JArr xs) i = (if i < length xs then xs ! i else JUndefined)"
| "getIndex (JStr s) i = (if i < length s then JStr [s ! i] else JUndefined)"
| "getIndex (JObj kvs) i = (case map_of kvs (showNat i) of Some v \<Rightarrow> v | None \<Rightarrow> JUndefined)"
| "getIndex v i = JUndefined"

text \<open>\<open>encodeURIComponent\<close>: the unreserved characters stay, and every other character
  becomes the bytes of its UTF-8 form (one byte below U+0080, two from there on), each as
  a percent sign and two hexadecimal digits.\<close>

definition hexDigit :: "nat \<Rightarrow> char" where
  "hexDigit n = (if n < 10 then char_of (48 + n) else char_of (55 + n))"

definition isUnreserved :: "char \<Rightarrow> bool" where
  "isUnreserved c =
     (let n = (of_char c :: nat)
      in (97 \<le> n \<and> n \<le> 122) \<or> (65 \<le> n \<and> n \<le> 90) \<or> (48 \<le> n \<and> n \<le> 57)
         \<or> c \<in> set ''-_.!~*'()'')"

definition percentByte :: "nat \<Rightarrow> string" where
  "percentByte b = [CHR ''%'', hexDigit (b div 16), hexDigit (b mod 16)]"

definition encodeURIComponent :: "string \<Rightarrow> string" where
  "encodeURIComponent s =
     concat (map (\<lambda>c. let n = (of_char c :: nat)
                       in if isUnreserved c then [c]
                          else if n < 128 then percentByte n
                          else percentByte (192 + n div 64) @ percentByte (128 + n mod 64)) s)"

text \<open>\<open>s.split(',')\<close>.\<close>

fun splitOn :: "char \<Rightarrow> string \<Rightarrow> string list" where
  "splitOn c [] = [[]]"
| "splitOn c (x # xs) =
     (if x = c then [] # splitOn c xs
      else (case splitOn c xs of
              y # ys \<Rightarrow> (x # y) # ys
            | [] \<Rightarrow> [[x]]))"

datatype http_method = GET | POST | PATCH | DELETE

text \<open>A call of \<open>fetch\<close>: method, endpoint below the API root, and body (\<open>JUndefined\<close> when
  there is none). The credentials in the headers are not modelled.\<close>

datatype request = Request http_method string jsval

record http_response =
  ok :: bool
  status :: nat
  body_text :: "thrown + string"
  body_json :: "thrown + jsval"

text \<open>
  What the server does not decide: the chat connection (\<open>connect\<close> and \<open>say\<close> of the IRC
  client; \<open>None\<close> is a promise that resolves), the answers of the platform to \<open>fetch\<close>,
  which may depend on the requests made before, and the clock.
\<close>

record world =
  connect :: "thrown option"
  say :: "string \<Rightarrow> jsval \<Rightarrow> thrown option"
  fetch :: "request list \<Rightarrow> request \<Rightarrow> thrown + http_response"
  now :: nat

record config =
  twitchChannel :: string
  twitchBroadcasterId :: string

text \<open>The mutable state of the server, with the requests sent so far.\<close>

record sys =
  recentMessages :: "ChatMessage list"
  ircConnected :: bool
  requests :: "request list"

section \<open>Calls to the platform\<close>

text \<open>Reading the \<open>message\<close> property of a thrown value: the message, or \<open>undefined\<close>
  (\<open>None\<close>) for a string; on \<open>null\<close> and \<open>undefined\<close> the reading itself throws.\<close>

fun messageOf :: "thrown \<Rightarrow> thrown + string option" where
  "messageOf (TwitchApiError err st msg) = Inr (Some msg)"
| "messageOf (JsError msg) = Inr (Some msg)"
| "messageOf (Rejected r) = Inr None"
| "messageOf ThrownNull = Inl (cannotRead ''null'' ''message'')"
| "messageOf ThrownUndefined = Inl (cannotRead ''undefined'' ''message'')"

text \<open>The \<open>catch\<close> of \<open>makeTwitchApiCall\<close>: a value with a truthy \<open>error\<close> property is thrown
  again, anything else is wrapped as a network error; reading \<open>error.error\<close> of \<open>null\<close>
  or \<open>undefined\<close> throws a \<open>TypeError\<close>.\<close>

definition rethrow :: "thrown \<Rightarrow> thrown" where
  "rethrow e =
     (case e of
        TwitchApiError err st msg \<Rightarrow>
          if err \<noteq> [] then e
          else TwitchApiError ''NETWORK_ERROR'' 0 (if msg \<noteq> [] then msg else ''Network request failed'')
      | JsError msg \<Rightarrow>
          TwitchApiError ''NETWORK_ERROR'' 0 (if msg \<noteq> [] then msg else ''Network request failed'')
      | Rejected r \<Rightarrow> TwitchApiError ''NETWORK_ERROR'' 0 ''Network request failed''
      | ThrownNull \<Rightarrow> cannotRead ''null'' ''error''
      | ThrownUndefined \<Rightarrow> cannotRead ''undefined'' ''error'')"

definition makeTwitchApiCall ::
    "world \<Rightarrow> sys \<Rightarrow> string \<Rightarrow> http_method \<Rightarrow> jsval \<Rightarrow> (thrown + jsval) \<times> sys" where
  "makeTwitchApiCall w s endpoint meth body =
     (let req = Request meth endpoint body;
          s' = s\<lparr>requests := requests s @ [req]\<rparr>
      in case fetch w (requests s) req of
           Inl e \<Rightarrow> (Inl (rethrow e), s')
         | Inr response \<Rightarrow>
             if \<not> ok response then
               (case body_text response of
                  Inl e \<Rightarrow> (Inl (rethrow e), s')
                | Inr errorText \<Rightarrow>
                    (Inl (rethrow (TwitchApiError ''API_ERROR'' (status response)
                            (if errorText \<noteq> [] then errorText
                             else ''HTTP '' @ showNat (status response)))), s'))
             else if status response = 204 then (Inr (JObj [(''success'', JBool True)]), s')
             else (case body_json response of
                     Inl e \<Rightarrow> (Inl (rethrow e), s')
                   | Inr v \<Rightarrow> (Inr v, s')))"

text \<open>Reading a property of a value that may be \<open>undefined\<close> or \<open>null\<close> throws a
  \<open>TypeError\<close> then.\<close>

definition propOf :: "jsval \<Rightarrow> string \<Rightarrow> thrown + jsval" where
  "propOf v k =
     (if nullish v then Inl (cannotRead (toStr v) k) else Inr (getProp v k))"

text \<open>\<open>response.data?.[0]?.id\<close>.\<close>

definition firstId :: "jsval \<Rightarrow> thrown + jsval" where
  "firstId response =
     (case propOf response ''data'' of
        Inl e \<Rightarrow> Inl e
      | Inr d \<Rightarrow>
          if nullish d then Inr JUndefined
          else if nullish (getIndex d 0) then Inr JUndefined
          else Inr (getProp (getIndex d 0) ''id''))"

text \<open>\<open>getUserIdFromUsername\<close> returns the identifier or \<open>null\<close>, and never throws.\<close>

definition getUserIdFromUsername :: "world \<Rightarrow> sys \<Rightarrow> string \<Rightarrow> jsval \<times> sys" where
  "getUserIdFromUsername w s user =
     (case makeTwitchApiCall w s (''/users?login='' @ encodeURIComponent user) GET JUndefined of
        (Inl e, s') \<Rightarrow> (JNull, s')
      | (Inr response, s') \<Rightarrow>
          (case firstId response of
             Inl e \<Rightarrow> (JNull, s')
           | Inr v \<Rightarrow> (if truthy v then v else JNull, s')))"

definition ensureIrcConnection :: "world \<Rightarrow> sys \<Rightarrow> bool \<times> sys" where
  "ensureIrcConnection w s =
     (if ircConnected s then (True, s)
      else (case connect w of
              None \<Rightarrow> (True, s\<lparr>ircConnected := True\<rparr>)
            | Some e \<Rightarrow> (False, s)))"

section \<open>The action executor\<close>

record exec_result =
  success :: bool
  result :: jsval
  error :: "string option"

definition failure :: "string \<Rightarrow> exec_result" where
  "failure msg = \<lparr>success = False, result = JNull, error = Some msg\<rparr>"

definition succeeded :: "jsval \<Rightarrow> exec_result" where
  "succeeded v = \<lparr>success = True, result = v, error = None\<rparr>"

text \<open>\<open>a || b\<close> on values.\<close>

definition orElse :: "jsval \<Rightarrow> jsval \<Rightarrow> jsval" where
  "orElse a b = (if truthy a then a else b)"

text \<open>
  \<open>resolveModerationTarget(parameters.usernameOrDescriptor)\<close> on a parameter of any type:
  \<open>input?.trim()\<close> is \<open>undefined\<close> for a missing parameter and throws for a value that
  has no \<open>trim\<close> method.
\<close>

definition resolveTargetParam :: "ChatMessage list \<Rightarrow> jsval \<Rightarrow> thrown + string option" where
  "resolveTargetParam msgs v =
     (case v of
        JStr input \<Rightarrow> Inr (resolveModerationTarget msgs input)
      | JUndefined \<Rightarrow> Inr None
      | JNull \<Rightarrow> Inr None
      | _ \<Rightarrow> Inl (JsError ''input?.trim is not a function''))"

text \<open>\<open>!targetUser\<close> is false: the target is a string and not the empty one.\<close>

definition isResolved :: "string option \<Rightarrow> bool" where
  "isResolved target = (case target of None \<Rightarrow> False | Some u \<Rightarrow> u \<noteq> [])"

text \<open>\<open>parameters.duration || guessTimeoutDuration(parameters.reason || '')\<close>; the guess
  is made only when the duration is falsy, and throws for a truthy reason that is not a
  string.\<close>

definition timeoutDuration :: "(string \<Rightarrow> jsval) \<Rightarrow> thrown + jsval" where
  "timeoutDuration parameters =
     (if truthy (parameters ''duration'') then Inr (parameters ''duration'')
      else (case orElse (parameters ''reason'') (JStr []) of
              JStr reason \<Rightarrow> Inr (JNum (int (guessTimeoutDuration reason)))
            | _ \<Rightarrow> Inl (JsError ''reason.toLowerCase is not a function'')))"

definition execSendMessageToChat ::
    "world \<Rightarrow> config \<Rightarrow> sys \<Rightarrow> (string \<Rightarrow> jsval) \<Rightarrow> (thrown + exec_result) \<times> sys" where
  "execSendMessageToChat w cfg s parameters =
     (case ensureIrcConnection w s of
        (connected, s1) \<Rightarrow>
          if \<not> connected then (Inr (failure ''IRC connection not available''), s1)
          else (case say w (''#'' @ twitchChannel cfg) (parameters ''message'') of
                  Some e \<Rightarrow> (Inl e, s1)
                | None \<Rightarrow>
                    (Inr (succeeded (JObj [(''message'', parameters ''message'')])),
                     s1\<lparr>recentMessages :=
                          addChatMessage (recentMessages s1) (twitchChannel cfg)
                            (''[BOT] '' @ toStr (parameters ''message'')) (now w)\<rparr>)))"

definition execTimeoutUser ::
    "world \<Rightarrow> config \<Rightarrow> sys \<Rightarrow> (string \<Rightarrow> jsval) \<Rightarrow> (thrown + exec_result) \<times> sys" where
  "execTimeoutUser w cfg s parameters =
     (case resolveTargetParam (recentMessages s) (parameters ''usernameOrDescriptor'') of
        Inl e \<Rightarrow> (Inl e, s)
      | Inr target \<Rightarrow>
          if \<not> isResolved target then (Inr (failure ''Could not resolve target user''), s)
          else (case getUserIdFromUsername w s (the target) of
                  (userId, s1) \<Rightarrow>
                    if \<not> truthy userId
                    then (Inr (failure (''Could not resolve user ID for '' @ the target)), s1)
                    else (case timeoutDuration parameters of
                            Inl e \<Rightarrow> (Inl e, s1)
                          | Inr duration \<Rightarrow>
                              (case makeTwitchApiCall w s1 ''/moderation/bans'' POST
                                      (JObj [(''broadcaster_id'', JStr (twitchBroadcasterId cfg)),
                                             (''moderator_id'', JStr (twitchBroadcasterId cfg)),
                                             (''data'', JObj
                                                [(''user_id'', userId),
                                                 (''reason'', orElse (parameters ''reason'')
                                                                (JStr ''Autonomous moderation'')),
                                                 (''duration'', duration)])]) of
                                 (Inl e, s2) \<Rightarrow> (Inl e, s2)
                               | (Inr r, s2) \<Rightarrow>
                                   (Inr (succeeded (JObj [(''user'', JStr (the target)),
                                                          (''duration'', duration),
                                                          (''reason'', parameters ''reason'')])),
                                    s2)))))"

definition execBanUser ::
    "world \<Rightarrow> config \<Rightarrow> sys \<Rightarrow> (string \<Rightarrow> jsval) \<Rightarrow> (thrown + exec_result) \<times> sys" where
  "execBanUser w cfg s parameters =
     (case resolveTargetParam (recentMessages s) (parameters ''usernameOrDescriptor'') of
        Inl e \<Rightarrow> (Inl e, s)
      | Inr target \<Rightarrow>
          if \<not> isResolved target then (Inr (failure ''Could not resolve target user''), s)
          else (case getUserIdFromUsername w s (the target) of
                  (userId, s1) \<Rightarrow>
                    if \<not> truthy userId
                    then (Inr (failure (''Could not resolve user ID for '' @ the target)), s1)
                    else (case makeTwitchApiCall w s1 ''/moderation/bans'' POST
                                 (JObj [(''broadcaster_id'', JStr (twitchBroadcasterId cfg)),
                                        (''moderator_id'', JStr (twitchBroadcasterId cfg)),
                                        (''data'', JObj
                                           [(''user_id'', userId),
                                            (''reason'', orElse (parameters ''reason'')
                                                           (JStr ''Autonomous moderation''))])]) of
                            (Inl e, s2) \<Rightarrow> (Inl e, s2)
                          | (Inr r, s2) \<Rightarrow>
                              (Inr (succeeded (JObj [(''user'', JStr (the target)),
                                                     (''reason'', parameters ''reason'')])),
                               s2))))"

text \<open>\<open>v.split(',').map(c => ({ title: c.trim() }))\<close>; it throws when \<open>v\<close> is not a
  string.\<close>

definition titlesOf :: "string \<Rightarrow> jsval \<Rightarrow> thrown + jsval" where
  "titlesOf name v =
     (case v of
        JStr text \<Rightarrow> Inr (JArr (map (\<lambda>c. JObj [(''title'', JStr (trim c))]) (splitOn CHR '','' text)))
      | _ \<Rightarrow>
          if nullish v then Inl (cannotRead (toStr v) ''split'')
          else Inl (JsError (''parameters.'' @ name @ ''.split is not a function'')))"

definition execCreateTwitchPoll ::
    "world \<Rightarrow> config \<Rightarrow> sys \<Rightarrow> (string \<Rightarrow> jsval) \<Rightarrow> (thrown + exec_result) \<times> sys" where
  "execCreateTwitchPoll w cfg s parameters =
     (case titlesOf ''choices'' (parameters ''choices'') of
        Inl e \<Rightarrow> (Inl e, s)
      | Inr choicesArray \<Rightarrow>
          (case makeTwitchApiCall w s ''/polls'' POST
                  (JObj [(''broadcaster_id'', JStr (twitchBroadcasterId cfg)),
                         (''title'', parameters ''title''),
                         (''choices'', choicesArray),
                         (''duration'', parameters ''duration'')]) of
             (Inl e, s1) \<Rightarrow> (Inl e, s1)
           | (Inr response, s1) \<Rightarrow> (Inr (succeeded response), s1)))"

definition execCreateTwitchPrediction ::
    "world \<Rightarrow> config \<Rightarrow> sys \<Rightarrow> (string \<Rightarrow> jsval) \<Rightarrow> (thrown + exec_result) \<times> sys" where
  "execCreateTwitchPrediction w cfg s parameters =
     (case titlesOf ''outcomes'' (parameters ''outcomes'') of
        Inl e \<Rightarrow> (Inl e, s)
      | Inr outcomesArray \<Rightarrow>
          (case makeTwitchApiCall w s ''/predictions'' POST
                  (JObj [(''broadcaster_id'', JStr (twitchBroadcasterId cfg)),
                         (''title'', parameters ''title''),
                         (''outcomes'', outcomesArray),
                         (''prediction_window'', parameters ''duration'')]) of
             (Inl e, s1) \<Rightarrow> (Inl e, s1)
           | (Inr response, s1) \<Rightarrow> (Inr (succeeded response), s1)))"

definition execCreateTwitchClip ::
    "world \<Rightarrow> config \<Rightarrow> sys \<Rightarrow> (string \<Rightarrow> jsval) \<Rightarrow> (thrown + exec_result) \<times> sys" where
  "execCreateTwitchClip w cfg s parameters =
     (case makeTwitchApiCall w s (''/clips?broadcaster_id='' @ twitchBroadcasterId cfg) POST
             JUndefined of
        (Inl e, s1) \<Rightarrow> (Inl e, s1)
      | (Inr response, s1) \<Rightarrow> (Inr (succeeded response), s1))"

definition execUpdateStreamTitle ::
    "world \<Rightarrow> config \<Rightarrow> sys \<Rightarrow> (string \<Rightarrow> jsval) \<Rightarrow> (thrown + exec_result) \<times> sys" where
  "execUpdateStreamTitle w cfg s parameters =
     (case makeTwitchApiCall w s ''/channels'' PATCH
             (JObj [(''broadcaster_id'', JStr (twitchBroadcasterId cfg)),
                    (''title'', parameters ''title'')]) of
        (Inl e, s1) \<Rightarrow> (Inl e, s1)
      | (Inr r, s1) \<Rightarrow> (Inr (succeeded (JObj [(''title'', parameters ''title'')])), s1))"

definition execUpdateStreamCategory ::
    "world \<Rightarrow> config \<Rightarrow> sys \<Rightarrow> (string \<Rightarrow> jsval) \<Rightarrow> (thrown + exec_result) \<times> sys" where
  "execUpdateStreamCategory w cfg s parameters =
     (case makeTwitchApiCall w s
             (''/search/categories?query='' @ encodeURIComponent (toStr (parameters ''category'')))
             GET JUndefined of
        (Inl e, s1) \<Rightarrow> (Inl e, s1)
      | (Inr searchResponse, s1) \<Rightarrow>
          (case propOf searchResponse ''data'' of
             Inl e \<Rightarrow> (Inl e, s1)
           | Inr d \<Rightarrow>
               if \<not> truthy d \<or> getProp d ''length'' = JNum 0
               then (Inr (failure (''Could not find category: '' @ toStr (parameters ''category''))), s1)
               else (case propOf (getIndex d 0) ''id'' of
                       Inl e \<Rightarrow> (Inl e, s1)
                     | Inr categoryId \<Rightarrow>
                         (case makeTwitchApiCall w s1 ''/channels'' PATCH
                                 (JObj [(''broadcaster_id'', JStr (twitchBroadcasterId cfg)),
                                        (''game_id'', categoryId)]) of
                            (Inl e, s2) \<Rightarrow> (Inl e, s2)
                          | (Inr r, s2) \<Rightarrow>
                              (Inr (succeeded (JObj [(''category'', parameters ''category''),
                                                     (''categoryId'', categoryId)])),
                               s2)))))"

text \<open>The \<open>switch\<close> on the tool name, inside the \<open>try\<close>.\<close>

definition mcpExecutorBody ::
    "world \<Rightarrow> config \<Rightarrow> sys \<Rightarrow> string \<Rightarrow> (string \<Rightarrow> jsval) \<Rightarrow> (thrown + exec_result) \<times> sys" where
  "mcpExecutorBody w cfg s toolName parameters =
     (if toolName = ''sendMessageToChat'' then execSendMessageToChat w cfg s parameters
      else if toolName = ''timeoutUser'' then execTimeoutUser w cfg s parameters
      else if toolName = ''banUser'' then execBanUser w cfg s parameters
      else if toolName = ''createTwitchPoll'' then execCreateTwitchPoll w cfg s parameters
      else if toolName = ''createTwitchPrediction'' then execCreateTwitchPrediction w cfg s parameters
      else if toolName = ''createTwitchClip'' then execCreateTwitchClip w cfg s parameters
      else if toolName = ''updateStreamTitle'' then execUpdateStreamTitle w cfg s parameters
      else if toolName = ''updateStreamCategory'' then execUpdateStreamCategory w cfg s parameters
      else (Inr (failure (''Unknown tool: '' @ toolName)), s))"

text \<open>
  The \<open>catch\<close>: \<open>err.message || error.message || 'Unknown error'\<close>. \<open>caughtMessage\<close> is
  the text for a value whose \<open>message\<close> can be read; for \<open>null\<close> and \<open>undefined\<close> the
  reading throws inside the \<open>catch\<close>, and that \<open>TypeError\<close> leaves the executor.
\<close>

definition caughtMessage :: "thrown \<Rightarrow> string" where
  "caughtMessage e =
     (case messageOf e of
        Inr (Some msg) \<Rightarrow> if msg \<noteq> [] then msg else ''Unknown error''
      | _ \<Rightarrow> ''Unknown error'')"

definition catchAll :: "(thrown + exec_result) \<times> sys \<Rightarrow> (thrown + exec_result) \<times> sys" where
  "catchAll outcome =
     (case outcome of
        (Inl e, s') \<Rightarrow>
          (case messageOf e of
             Inl typeError \<Rightarrow> (Inl typeError, s')
           | Inr m \<Rightarrow> (Inr (failure (caughtMessage e)), s'))
      | (Inr r, s') \<Rightarrow> (Inr r, s'))"

text \<open>\<open>mcpExecutor\<close>; a result \<open>Inl\<close> would be a promise that rejects.\<close>

definition mcpExecutor ::
    "world \<Rightarrow> config \<Rightarrow> sys \<Rightarrow> string \<Rightarrow> (string \<Rightarrow> jsval) \<Rightarrow> (thrown + exec_result) \<times> sys" where
  "mcpExecutor w cfg s toolName parameters = catchAll (mcpExecutorBody w cfg s toolName parameters)"

section \<open>The moderation tools\<close>

text \<open>The text of \<open>${err.message}\<close> for a value whose \<open>message\<close> can be read.\<close>

definition messageText :: "thrown \<Rightarrow> string" where
  "messageText e = (case messageOf e of Inr (Some msg) \<Rightarrow> msg | _ \<Rightarrow> ''undefined'')"

definition newline :: string where
  "newline = [CHR 0x0A]"

definition chatLogReply :: "ChatMessage list \<Rightarrow> string" where
  "chatLogReply msgs =
     ''No explicit username provided. Here are the last 20 chat messages:'' @ newline
       @ joinWith newline (getRecentChatLog msgs 20)"

text \<open>\<open>reason || dflt\<close> for an optional string.\<close>

definition reasonOr :: "string option \<Rightarrow> string \<Rightarrow> string" where
  "reasonOr reason dflt = (case reason of None \<Rightarrow> dflt | Some r \<Rightarrow> if r \<noteq> [] then r else dflt)"

text \<open>The handlers of the tools \<open>timeoutUser\<close> and \<open>banUser\<close>; the result is the text of
  the reply, or \<open>Inl\<close> for an exception that leaves the handler (the \<open>catch\<close> reads
  \<open>err.message\<close>).\<close>

definition timeoutUserTool ::
    "world \<Rightarrow> config \<Rightarrow> sys \<Rightarrow> string \<Rightarrow> string option \<Rightarrow> (thrown + string) \<times> sys" where
  "timeoutUserTool w cfg s usernameOrDescriptor reason =
     (let target = resolveModerationTarget (recentMessages s) usernameOrDescriptor
      in if \<not> isResolved target then (Inr (chatLogReply (recentMessages s)), s)
         else (case getUserIdFromUsername w s (the target) of
                 (userId, s1) \<Rightarrow>
                   if \<not> truthy userId
                   then (Inr (''Could not resolve user ID for username: '' @ the target), s1)
                   else (let timeoutReason = reasonOr reason ''inappropriate behavior'';
                             duration = guessTimeoutDuration timeoutReason
                         in case makeTwitchApiCall w s1 ''/moderation/bans'' POST
                                   (JObj [(''broadcaster_id'', JStr (twitchBroadcasterId cfg)),
                                          (''moderator_id'', JStr (twitchBroadcasterId cfg)),
                                          (''data'', JObj
                                             [(''user_id'', userId),
                                              (''reason'', JStr timeoutReason),
                                              (''duration'', JNum (int duration))])]) of
                              (Inl e, s2) \<Rightarrow>
                                (case messageOf e of
                                   Inl typeError \<Rightarrow> (Inl typeError, s2)
                                 | Inr m \<Rightarrow> (Inr (''Error timing out user: '' @ messageText e), s2))
                            | (Inr r, s2) \<Rightarrow>
                                (Inr (''Successfully timed out '' @ the target @ '' for ''
                                        @ showNat duration @ '' seconds. Reason: '' @ timeoutReason),
                                 s2))))"

definition banUserTool ::
    "world \<Rightarrow> config \<Rightarrow> sys \<Rightarrow> string \<Rightarrow> string option \<Rightarrow> (thrown + string) \<times> sys" where
  "banUserTool w cfg s usernameOrDescriptor reason =
     (let target = resolveModerationTarget (recentMessages s) usernameOrDescriptor
      in if \<not> isResolved target then (Inr (chatLogReply (recentMessages s)), s)
         else (case getUserIdFromUsername w s (the target) of
                 (userId, s1) \<Rightarrow>
                   if \<not> truthy userId
                   then (Inr (''Could not resolve user ID for username: '' @ the target), s1)
                   else (let banReason = reasonOr reason ''severe violation of chat rules''
                         in case makeTwitchApiCall w s1 ''/moderation/bans'' POST
                                   (JObj [(''broadcaster_id'', JStr (twitchBroadcasterId cfg)),
                                          (''moderator_id'', JStr (twitchBroadcasterId cfg)),
                                          (''data'', JObj
                                             [(''user_id'', userId),
                                              (''reason'', JStr banReason)])]) of
                              (Inl e, s2) \<Rightarrow>
                                (case messageOf e of
                                   Inl typeError \<Rightarrow> (Inl typeError, s2)
                                 | Inr m \<Rightarrow> (Inr (''Error banning user: '' @ messageText e), s2))
                            | (Inr r, s2) \<Rightarrow>
                                (Inr (''Successfully banned '' @ the target @ ''. Reason: '' @ banReason),
                                 s2))))"

section \<open>Rendering values for a reply\<close>




section \<open>Notions used to state the properties\<close>

text \<open>The number of keywords that occur in the lower-cased content of a message, and
  whether there is one.\<close>

definition hits :: "string list \<Rightarrow> ChatMessage \<Rightarrow> nat" where
  "hits keywords m = length (filter (includes_str (toLowerCase (content m))) keywords)"

definition qualifies :: "string list \<Rightarrow> ChatMessage \<Rightarrow> bool" where
  "qualifies keywords m = list_ex (includes_str (toLowerCase (content m))) keywords"

text \<open>The score of a user: the keyword occurrences counted over the user's messages.\<close>

definition scoreOf :: "string list \<Rightarrow> ChatMessage list \<Rightarrow> string \<Rightarrow> nat" where
  "scoreOf keywords ms u = sum_list (map (hits keywords) (filter (\<lambda>m. username m = u) ms))"

text \<open>The number of a user's messages in which some keyword occurs.\<close>

definition qualifyingMessages :: "string list \<Rightarrow> ChatMessage list \<Rightarrow> string \<Rightarrow> nat" where
  "qualifyingMessages keywords ms u =
     length (filter (\<lambda>m. username m = u \<and> qualifies keywords m) ms)"

definition scoreIn :: "(string \<times> nat) list \<Rightarrow> string \<Rightarrow> nat" where
  "scoreIn es u = (case map_of es u of None \<Rightarrow> 0 | Some n \<Rightarrow> n)"

definition toxicKeywords :: "string list" where
  "toxicKeywords = the (map_of DESCRIPTOR_KEYWORDS ''toxic'')"

definition toxicFixture :: "ChatMessage list" where
  "toxicFixture =
     [\<lparr>username = ''alice'', content = ''you're an idiot'', timestamp = 1\<rparr>,
      \<lparr>username = ''bob'', content = ''idiot much?'', timestamp = 2\<rparr>,
      \<lparr>username = ''alice'', content = ''so dumb'', timestamp = 3\<rparr>]"

definition tallyFixture :: "ChatMessage list" where
  "tallyFixture =
     [\<lparr>username = ''alice'', content = ''stupid idiot trash'', timestamp = 1\<rparr>,
      \<lparr>username = ''bob'', content = ''idiot'', timestamp = 2\<rparr>,
      \<lparr>username = ''bob'', content = ''so dumb'', timestamp = 3\<rparr>]"

text \<open>A log in which carol scores first, and bob and alice then tie at a higher score.\<close>

definition tieFixture :: "ChatMessage list" where
  "tieFixture =
     [\<lparr>username = ''carol'', content = ''idiot'', timestamp = 1\<rparr>,
      \<lparr>username = ''bob'', content = ''idiot dumb'', timestamp = 2\<rparr>,
      \<lparr>username = ''alice'', content = ''dumb idiot'', timestamp = 3\<rparr>]"

text \<open>The tool names of the \<open>switch\<close>.\<close>

definition recognizedTools :: "string list" where
  "recognizedTools =
     [''sendMessageToChat'', ''timeoutUser'', ''banUser'', ''createTwitchPoll'',
      ''createTwitchPrediction'', ''createTwitchClip'', ''updateStreamTitle'',
      ''updateStreamCategory'']"

text \<open>A world for the examples: the chat connection works, the platform knows the login
  \<open>alice\<close> and answers every other request with status 204.\<close>

definition exampleFetch :: "request list \<Rightarrow> request \<Rightarrow> thrown + http_response" where
  "exampleFetch earlier req =
     (case req of
        Request meth endpoint body \<Rightarrow>
          if endpoint = ''/users?login=alice''
          then Inr \<lparr>ok = True, status = 200, body_text = Inr [],
                    body_json = Inr (JObj [(''data'', JArr [JObj [(''id'', JStr ''1001'')]])])\<rparr>
          else if prefix ''/users?login='' endpoint
          then Inr \<lparr>ok = True, status = 200, body_text = Inr [],
                    body_json = Inr (JObj [(''data'', JArr [])])\<rparr>
          else Inr \<lparr>ok = True, status = 204, body_text = Inr [], body_json = Inr JNull\<rparr>)"

definition exampleWorld :: world where
  "exampleWorld = \<lparr>connect = None, say = (\<lambda>channel message. None), fetch = exampleFetch, now = 7\<rparr>"


definition exampleConfig :: config where
  "exampleConfig = \<lparr>twitchChannel = ''streamer'', twitchBroadcasterId = ''42''\<rparr>"

definition exampleSys :: sys where
  "exampleSys = \<lparr>recentMessages = toxicFixture, ircConnected = True, requests = []\<rparr>"

definition noParameters :: "string \<Rightarrow> jsval" where
  "noParameters k = JUndefined"

definition exampleParameters :: "string \<Rightarrow> jsval" where
  "exampleParameters k =
     (if k = ''usernameOrDescriptor'' then JStr ''alice''
      else if k = ''reason'' then JStr ''Toxic spam''
      else JUndefined)"


definition strangerParameters :: "string \<Rightarrow> jsval" where
  "strangerParameters k =
     (if k = ''usernameOrDescriptor'' then JStr ''zed_77'' else JUndefined)"

definition descriptorParameters :: "string \<Rightarrow> jsval" where
  "descriptorParameters k =
     (if k = ''usernameOrDescriptor'' then JStr ''the toxic one'' else JUndefined)"


section \<open>Properties of the message log\<close>

lemma addChatMessage_step:
  "addChatMessage ms u c t =
     (if length ms < MAX_MESSAGES then ms @ [mkMessage (u, c, t)]
      else tl (ms @ [mkMessage (u, c, t)]))"
  by (simp add: addChatMessage_def mkMessage_def Let_def)

lemma addAll_general:
  "length ms \<le> MAX_MESSAGES \<Longrightarrow>
   addAll ms es = drop (length ms + length es - MAX_MESSAGES) (ms @ map mkMessage es)"
proof (induction es arbitrary: ms)
  case Nil
  then show ?case by simp
next
  case (Cons e es)
  obtain u c t where e: "e = (u, c, t)" by (cases e) auto
  let ?ms' = "addChatMessage ms u c t"
  show ?case
  proof (cases "length ms < MAX_MESSAGES")
    case True
    then have ms': "?ms' = ms @ [mkMessage e]" by (simp add: addChatMessage_step e)
    then have "length ?ms' \<le> MAX_MESSAGES" using True by simp
    from Cons.IH [OF this] show ?thesis by (simp add: e ms' [unfolded e])
  next
    case False
    with Cons.prems have full: "length ms = MAX_MESSAGES" by simp
    then have ne: "ms \<noteq> []" by (auto simp: MAX_MESSAGES_def)
    have ms': "?ms' = tl ms @ [mkMessage e]"
      using False ne by (simp add: addChatMessage_step e)
    have "length (tl ms @ [mkMessage e]) = MAX_MESSAGES"
      using full ne by (cases ms) auto
    then have len: "length ?ms' = MAX_MESSAGES" by (simp only: ms')
    have ih: "addAll ?ms' es = drop (length ?ms' + length es - MAX_MESSAGES) (?ms' @ map mkMessage es)"
      by (rule Cons.IH) (simp only: len order_refl)
    have n: "length ?ms' + length es - MAX_MESSAGES = length es"
      by (simp add: len)
    have "addAll ms (e # es) = addAll ?ms' es" by (simp add: e)
    also have "\<dots> = drop (length es) (?ms' @ map mkMessage es)"
      by (simp only: ih n)
    also have "\<dots> = drop (length es) (tl ms @ mkMessage e # map mkMessage es)"
      by (simp only: ms') simp
    also have "\<dots> = drop (Suc (length es)) (ms @ mkMessage e # map mkMessage es)"
      using ne by (cases ms) auto
    also have "\<dots> = drop (length ms + length (e # es) - MAX_MESSAGES) (ms @ map mkMessage (e # es))"
      by (simp add: full)
    finally show ?thesis .
  qed
qed

text \<open>
  C2. Starting from the empty log, after appending any sequence of \<open>N\<close> messages with
  \<open>addChatMessage\<close> the log holds \<open>min N 100\<close> messages, and they are exactly the last
  \<open>min N 100\<close> of the appended messages, in the order in which they were appended. One
  append adds the message at the end and, when the log held 100 messages or more, removes
  the oldest one; nothing else is removed.
\<close>

theorem addChatMessage_keeps_most_recent:
  "length (addAll [] es) = min (length es) 100 \<and>
   addAll [] es = drop (length es - 100) (map mkMessage es) \<and>
   addAll [] es = rev (take (min (length es) 100) (rev (map mkMessage es))) \<and>
   addChatMessage ms u c t =
     (if length ms < 100 then ms @ [mkMessage (u, c, t)] else tl (ms @ [mkMessage (u, c, t)]))"
proof -
  have eq: "addAll [] es = drop (length es - 100) (map mkMessage es)"
    using addAll_general [of "[]" es] by (simp add: MAX_MESSAGES_def)
  have "rev (take (min (length es) 100) (rev (map mkMessage es))) =
        drop (length es - 100) (map mkMessage es)"
    by (simp add: take_rev min_def)
  moreover have "addChatMessage ms u c t =
     (if length ms < 100 then ms @ [mkMessage (u, c, t)] else tl (ms @ [mkMessage (u, c, t)]))"
    using addChatMessage_step [of ms u c t] by (simp add: MAX_MESSAGES_def)
  ultimately show ?thesis using eq by (auto simp: min_def)
qed

section \<open>Properties of the keyword scan\<close>

lemma bump_keys_old: "u \<in> fst ` set es \<Longrightarrow> map fst (bump u es) = map fst es"
  by (induction es) force+

lemma bump_keys_new: "u \<notin> fst ` set es \<Longrightarrow> map fst (bump u es) = map fst es @ [u]"
  by (induction es) force+

lemma bump_keys:
  "map fst (bump u es) = (if u \<in> fst ` set es then map fst es else map fst es @ [u])"
  by (simp add: bump_keys_old bump_keys_new)

lemma bump_mem: "u \<in> fst ` set (bump u es)"
  by (induction es) force+

lemma bump_scoreIn:
  "scoreIn (bump u es) v = scoreIn es v + (if v = u then 1 else 0)"
  by (induction es) (auto simp: scoreIn_def)

lemma bump_pos:
  "list_all (\<lambda>e. 0 < snd e) es \<Longrightarrow> list_all (\<lambda>e. 0 < snd e) (bump u es)"
  by (induction es) auto

lemma pos_keys:
  assumes "list_all (\<lambda>e. 0 < snd e) es"
  shows "(u \<in> set (map fst es)) = (0 < scoreIn es u)"
proof (cases "map_of es u")
  case None
  then have "u \<notin> fst ` set es" by (simp add: map_of_eq_None_iff)
  with None show ?thesis by (simp add: scoreIn_def)
next
  case (Some n)
  then have "(u, n) \<in> set es" by (rule map_of_SomeD)
  with assms have "0 < n" and "u \<in> set (map fst es)" by (force simp: list_all_iff)+
  with Some show ?thesis by (simp add: scoreIn_def)
qed

lemma scoreKeywords_keys:
  "map fst (scoreKeywords u t ks es) =
     (if filter (includes_str t) ks \<noteq> [] \<and> u \<notin> fst ` set es then map fst es @ [u] else map fst es)"
proof (induction ks arbitrary: es)
  case Nil
  then show ?case by simp
next
  case (Cons k ks)
  show ?case
  proof (cases "includes_str t k")
    case True
    have "u \<in> fst ` set (bump u es)" by (rule bump_mem)
    then show ?thesis using True by (simp add: Cons.IH bump_keys del: set_map)
  next
    case False
    then show ?thesis by (simp add: Cons.IH)
  qed
qed

lemma scoreKeywords_scoreIn:
  "scoreIn (scoreKeywords u t ks es) v =
     scoreIn es v + (if v = u then length (filter (includes_str t) ks) else 0)"
  by (induction ks arbitrary: es) (auto simp: bump_scoreIn)

lemma scoreKeywords_pos:
  "list_all (\<lambda>e. 0 < snd e) es \<Longrightarrow> list_all (\<lambda>e. 0 < snd e) (scoreKeywords u t ks es)"
  by (induction ks arbitrary: es) (auto simp: bump_pos)

lemma scoreMessages_snoc:
  "scoreMessages ks (ms @ [m]) es =
     scoreKeywords (username m) (toLowerCase (content m)) ks (scoreMessages ks ms es)"
  by (induction ms arbitrary: es) auto

lemma scoreMessages_pos: "list_all (\<lambda>e. 0 < snd e) (scoreMessages ks ms [])"
  by (induction ms rule: rev_induct) (auto simp: scoreMessages_snoc scoreKeywords_pos)

lemma scoreMessages_scoreIn: "scoreIn (scoreMessages ks ms []) v = scoreOf ks ms v"
  by (induction ms rule: rev_induct)
     (auto simp: scoreMessages_snoc scoreKeywords_scoreIn scoreOf_def hits_def scoreIn_def [of "[]"])

lemma scoreMessages_keys: "(u \<in> set (map fst (scoreMessages ks ms []))) = (0 < scoreOf ks ms u)"
  using pos_keys [OF scoreMessages_pos] by (simp add: scoreMessages_scoreIn)

lemma scoreMessages_distinct: "distinct (map fst (scoreMessages ks ms []))"
  by (induction ms rule: rev_induct) (auto simp: scoreMessages_snoc scoreKeywords_keys)

lemma hits_scoreOf: "m \<in> set ms \<Longrightarrow> 0 < hits ks m \<Longrightarrow> 0 < scoreOf ks ms (username m)"
  by (induction ms) (auto simp: scoreOf_def)

lemma scoreMessages_order:
  "map fst (scoreMessages ks ms []) = ks1 @ u # ks2 \<Longrightarrow>
   \<exists>pre m post. ms = pre @ m # post \<and> username m = u \<and> 0 < hits ks m \<and>
      (\<forall>m'\<in>set pre. 0 < hits ks m' \<longrightarrow> username m' \<in> set ks1)"
proof (induction ms arbitrary: ks1 ks2 rule: rev_induct)
  case Nil
  then show ?case by simp
next
  case (snoc x ms)
  let ?es = "scoreMessages ks ms []"
  show ?case
  proof (cases "filter (includes_str (toLowerCase (content x))) ks \<noteq> [] \<and> username x \<notin> set (map fst ?es)")
    case False
    then have "map fst ?es = ks1 @ u # ks2"
      using snoc.prems by (simp add: scoreMessages_snoc scoreKeywords_keys split: if_splits)
    from snoc.IH [OF this] obtain pre m post where
      "ms = pre @ m # post" "username m = u" "0 < hits ks m"
      "\<forall>m'\<in>set pre. 0 < hits ks m' \<longrightarrow> username m' \<in> set ks1" by blast
    then have "ms @ [x] = pre @ m # (post @ [x])" by simp
    then show ?thesis
      using \<open>username m = u\<close> \<open>0 < hits ks m\<close>
        \<open>\<forall>m'\<in>set pre. 0 < hits ks m' \<longrightarrow> username m' \<in> set ks1\<close> by blast
  next
    case True
    then have keys: "map fst ?es @ [username x] = ks1 @ u # ks2"
      using snoc.prems by (simp add: scoreMessages_snoc scoreKeywords_keys)
    show ?thesis
    proof (cases ks2 rule: rev_cases)
      case Nil
      with keys have k1: "map fst ?es = ks1" and ux: "username x = u" by auto
      have "\<forall>m'\<in>set ms. 0 < hits ks m' \<longrightarrow> username m' \<in> set ks1"
        using hits_scoreOf [of _ ms ks] scoreMessages_keys [of _ ks ms] k1 by auto
      moreover have "0 < hits ks x" using True by (simp add: hits_def)
      ultimately show ?thesis using ux by blast
    next
      case (snoc ks2' y)
      with keys have "map fst ?es = ks1 @ u # ks2'" by simp
      from snoc.IH [OF this] obtain pre m post where
        "ms = pre @ m # post" "username m = u" "0 < hits ks m"
        "\<forall>m'\<in>set pre. 0 < hits ks m' \<longrightarrow> username m' \<in> set ks1" by blast
      then have "ms @ [x] = pre @ m # (post @ [x])" by simp
      then show ?thesis
        using \<open>username m = u\<close> \<open>0 < hits ks m\<close>
          \<open>\<forall>m'\<in>set pre. 0 < hits ks m' \<longrightarrow> username m' \<in> set ks1\<close> by blast
    qed
  qed
qed

lemma hd_insort_key:
  "hd (insort_key f x ys) = (if ys = [] \<or> f x \<le> f (hd ys) then x else hd ys)"
  by (cases ys) auto

lemma hd_sort_key_first_min:
  "es \<noteq> [] \<Longrightarrow>
   \<exists>es1 e es2. es = es1 @ e # es2 \<and> hd (sort_key f es) = e \<and>
     (\<forall>x\<in>set es1. f e < f x) \<and> (\<forall>x\<in>set es2. f e \<le> f x)"
proof (induction es)
  case Nil
  then show ?case by simp
next
  case (Cons x xs)
  show ?case
  proof (cases "xs = []")
    case True
    then have "x # xs = [] @ x # []" "hd (sort_key f (x # xs)) = x" by simp_all
    then show ?thesis by (metis empty_iff empty_set)
  next
    case False
    from Cons.IH [OF this] obtain xs1 e xs2 where
      xs: "xs = xs1 @ e # xs2" and hd: "hd (sort_key f xs) = e"
      and lt: "\<forall>y\<in>set xs1. f e < f y" and le: "\<forall>y\<in>set xs2. f e \<le> f y" by blast
    have ne: "sort_key f xs \<noteq> []" using False by (metis length_0_conv length_sort)
    have hd': "hd (sort_key f (x # xs)) = (if f x \<le> f e then x else e)"
      using ne hd by (simp add: hd_insort_key)
    show ?thesis
    proof (cases "f x \<le> f e")
      case True
      then have "\<forall>y\<in>set xs. f x \<le> f y" using xs lt le by fastforce
      moreover have "x # xs = [] @ x # xs" by simp
      moreover have "hd (sort_key f (x # xs)) = x" using True hd' by simp
      ultimately show ?thesis by (metis empty_iff empty_set)
    next
      case False
      then have "\<forall>y\<in>set (x # xs1). f e < f y" using lt by auto
      moreover have "x # xs = (x # xs1) @ e # xs2" using xs by simp
      moreover have "hd (sort_key f (x # xs)) = e" using False hd' by simp
      ultimately show ?thesis using le by blast
    qed
  qed
qed

lemma hits_qualifies: "(0 < hits ks m) = qualifies ks m"
  by (simp add: hits_def qualifies_def list_ex_iff filter_empty_conv)

lemma findUserByDescriptor_winner:
  assumes kws: "descriptorKeywords d = Some ks"
    and ne: "scoreMessages ks ms [] \<noteq> []"
  shows "\<exists>u. findUserByDescriptor ms d = Inr (Some u) \<and> 0 < scoreOf ks ms u \<and>
           (\<forall>v. scoreOf ks ms v \<le> scoreOf ks ms u) \<and>
           (\<exists>pre m post. ms = pre @ m # post \<and> username m = u \<and> qualifies ks m \<and>
              (\<forall>m'\<in>set pre. qualifies ks m' \<longrightarrow> scoreOf ks ms (username m') < scoreOf ks ms u))"
proof -
  let ?es = "scoreMessages ks ms []"
  let ?f = "\<lambda>e :: string \<times> nat. - int (snd e)"
  from hd_sort_key_first_min [OF ne, of ?f] obtain es1 e es2 where
    es: "?es = es1 @ e # es2" and hd: "hd (sort_key ?f ?es) = e"
    and lt: "\<forall>x\<in>set es1. ?f e < ?f x" and le: "\<forall>x\<in>set es2. ?f e \<le> ?f x" by blast
  let ?u = "fst e"
  have res: "findUserByDescriptor ms d = Inr (Some ?u)"
    using kws ne hd by (simp add: findUserByDescriptor_def Let_def)
  have dist: "distinct (map fst ?es)" by (rule scoreMessages_distinct)
  have entry: "scoreOf ks ms (fst x) = snd x" if "x \<in> set ?es" for x
  proof -
    from that have "map_of ?es (fst x) = Some (snd x)"
      using dist by (simp add: map_of_eq_Some_iff)
    then have "scoreIn ?es (fst x) = snd x" by (simp add: scoreIn_def)
    then show ?thesis by (simp add: scoreMessages_scoreIn)
  qed
  have e_in: "e \<in> set ?es" using es by simp
  have pos: "0 < scoreOf ks ms ?u"
    using scoreMessages_keys [of ?u ks ms] e_in by auto
  have top: "scoreOf ks ms v \<le> scoreOf ks ms ?u" for v
  proof (cases "v \<in> set (map fst ?es)")
    case False
    then show ?thesis using scoreMessages_keys [of v ks ms] by simp
  next
    case True
    then obtain x where x: "x \<in> set ?es" "fst x = v" by auto
    then have "x \<in> set es1 \<or> x = e \<or> x \<in> set es2" using es by auto
    then have "snd x \<le> snd e" using lt le by auto
    then show ?thesis using entry [OF x(1)] entry [OF e_in] x(2) by simp
  qed
  have "map fst ?es = map fst es1 @ ?u # map fst es2" using es by simp
  from scoreMessages_order [OF this] obtain pre m post where
    split: "ms = pre @ m # post" "username m = ?u" "0 < hits ks m"
    and before: "\<forall>m'\<in>set pre. 0 < hits ks m' \<longrightarrow> username m' \<in> set (map fst es1)" by blast
  have "scoreOf ks ms (username m') < scoreOf ks ms ?u"
    if "m' \<in> set pre" "qualifies ks m'" for m'
  proof -
    from that before have "username m' \<in> set (map fst es1)" by (simp add: hits_qualifies)
    then obtain x where x: "x \<in> set es1" "fst x = username m'" by auto
    then have "x \<in> set ?es" using es by simp
    from entry [OF this] entry [OF e_in] lt x show ?thesis by auto
  qed
  with split res pos top show ?thesis by (auto simp: hits_qualifies)
qed

lemma findUserByDescriptor_none:
  assumes kws: "descriptorKeywords d = Some ks"
    and em: "scoreMessages ks ms [] = []"
  shows "findUserByDescriptor ms d = Inr None \<and> (\<forall>v. scoreOf ks ms v = 0)"
proof -
  have "scoreOf ks ms v = 0" for v
    using scoreMessages_keys [of v ks ms] em by simp
  then show ?thesis using kws em by (simp add: findUserByDescriptor_def)
qed

text \<open>
  C1 (amended). The keyword scan lives in \<open>findUserByDescriptor\<close>: it takes the keyword
  set of the lower-cased descriptor (the descriptor itself as the only keyword when the
  table has none), gives a user one point for every keyword occurring in the lower-cased
  content of each of the user's messages, and returns a user with the highest score, or
  none when no keyword occurs anywhere. \<open>resolveModerationTarget\<close> does not consult it:
  an input that neither contains "user named" nor has the shape of a literal username
  resolves to none.
\<close>

theorem findUserByDescriptor_highest_score:
  "(descriptorKeywords d = Some ks \<longrightarrow>
      (case findUserByDescriptor ms d of
         Inl e \<Rightarrow> False
       | Inr None \<Rightarrow> (\<forall>v. scoreOf ks ms v = 0)
       | Inr (Some u) \<Rightarrow> 0 < scoreOf ks ms u \<and> (\<forall>v. scoreOf ks ms v \<le> scoreOf ks ms u))) \<and>
   (toLowerCase d \<notin> set inheritedKeys \<longrightarrow>
      descriptorKeywords d =
        Some (case map_of DESCRIPTOR_KEYWORDS (toLowerCase d) of Some k \<Rightarrow> k | None \<Rightarrow> [d])) \<and>
   (\<not> includes_str (toLowerCase input) ''user named'' \<and> \<not> literalUsernameShape (trim input) \<longrightarrow>
      resolveModerationTarget ms input = None)"
proof (intro conjI impI)
  assume kws: "descriptorKeywords d = Some ks"
  show "case findUserByDescriptor ms d of
         Inl e \<Rightarrow> False
       | Inr None \<Rightarrow> (\<forall>v. scoreOf ks ms v = 0)
       | Inr (Some u) \<Rightarrow> 0 < scoreOf ks ms u \<and> (\<forall>v. scoreOf ks ms v \<le> scoreOf ks ms u)"
  proof (cases "scoreMessages ks ms [] = []")
    case True
    from findUserByDescriptor_none [OF kws True] show ?thesis by simp
  next
    case False
    from findUserByDescriptor_winner [OF kws False] show ?thesis by auto
  qed
next
  assume "toLowerCase d \<notin> set inheritedKeys"
  then show "descriptorKeywords d =
        Some (case map_of DESCRIPTOR_KEYWORDS (toLowerCase d) of Some k \<Rightarrow> k | None \<Rightarrow> [d])"
    by (simp add: descriptorKeywords_def split: option.splits)
next
  assume "\<not> includes_str (toLowerCase input) ''user named'' \<and> \<not> literalUsernameShape (trim input)"
  then show "resolveModerationTarget ms input = None"
    by (simp add: resolveModerationTarget_def Let_def)
qed

theorem findUserByDescriptor_highest_score_witness:
  "descriptorKeywords ''toxic'' = Some toxicKeywords \<and>
   findUserByDescriptor toxicFixture ''toxic'' = Inr (Some ''alice'') \<and>
   scoreOf toxicKeywords toxicFixture ''alice'' = 2 \<and>
   scoreOf toxicKeywords toxicFixture ''bob'' = 1 \<and>
   (\<forall>v. scoreOf toxicKeywords toxicFixture v
          \<le> scoreOf toxicKeywords toxicFixture ''alice'') \<and>
   toLowerCase ''toxic'' \<notin> set inheritedKeys \<and>
   \<not> includes_str (toLowerCase ''the toxic one'') ''user named'' \<and>
   \<not> literalUsernameShape (trim ''the toxic one'') \<and>
   resolveModerationTarget toxicFixture ''the toxic one'' = None"
proof -
  have k: "descriptorKeywords ''toxic'' = Some toxicKeywords"
    by code_simp
  have f: "findUserByDescriptor toxicFixture ''toxic'' = Inr (Some ''alice'')"
    by code_simp
  have a: "scoreOf toxicKeywords toxicFixture ''alice'' = 2"
    by code_simp
  have b: "scoreOf toxicKeywords toxicFixture ''bob'' = 1"
    by code_simp
  have i: "toLowerCase ''toxic'' \<notin> set inheritedKeys" by code_simp
  have n: "\<not> includes_str (toLowerCase ''the toxic one'') ''user named'' \<and>
           \<not> literalUsernameShape (trim ''the toxic one'')" by code_simp
  from findUserByDescriptor_highest_score
    [of "''toxic''" toxicKeywords toxicFixture "''the toxic one''"]
  show ?thesis using k f a b i n by simp
qed

text \<open>
  The claim as it was stated fails twice. Resolving "toxic" over the three-message fixture
  takes the literal-username path and returns "toxic", not "alice". And the score is not
  one point per qualifying message: alice's single message with three keywords outscores
  bob's two qualifying messages.
\<close>

theorem resolve_toxic_counterexample:
  "resolveModerationTarget toxicFixture ''toxic'' = Some ''toxic'' \<and>
   resolveModerationTarget toxicFixture ''toxic'' \<noteq> Some ''alice'' \<and>
   findUserByDescriptor tallyFixture ''toxic'' = Inr (Some ''alice'') \<and>
   qualifyingMessages toxicKeywords tallyFixture ''alice'' = 1 \<and>
   qualifyingMessages toxicKeywords tallyFixture ''bob'' = 2"
  by code_simp

text \<open>
  C3 (amended). The tie-break belongs to \<open>findUserByDescriptor\<close>, which
  \<open>resolveModerationTarget\<close> does not call. When \<open>findUserByDescriptor\<close> returns a user,
  no user has a higher score, and the user wrote a qualifying message before which every
  qualifying message belongs to a user with a strictly lower score: among the users tied
  at the highest score, the one whose qualifying message comes first in the log is
  returned. \<open>resolveModerationTarget\<close> returns none for an input that neither contains
  "user named" nor has the shape of a literal username, whatever the scores.
\<close>

theorem findUserByDescriptor_highest_then_earliest:
  assumes "findUserByDescriptor ms d = Inr (Some u)"
    and "descriptorKeywords d = Some ks"
  shows "0 < scoreOf ks ms u \<and> (\<forall>v. scoreOf ks ms v \<le> scoreOf ks ms u) \<and>
         (\<exists>pre m post. ms = pre @ m # post \<and> username m = u \<and> qualifies ks m \<and>
            (\<forall>m'\<in>set pre. qualifies ks m' \<longrightarrow>
               scoreOf ks ms (username m') < scoreOf ks ms u)) \<and>
         (\<not> includes_str (toLowerCase input) ''user named'' \<and> \<not> literalUsernameShape (trim input)
            \<longrightarrow> resolveModerationTarget ms input = None)"
proof (cases "scoreMessages ks ms [] = []")
  case True
  from findUserByDescriptor_none [OF assms(2) True] assms(1) show ?thesis by simp
next
  case False
  from findUserByDescriptor_winner [OF assms(2) False] assms(1)
  have "0 < scoreOf ks ms u \<and> (\<forall>v. scoreOf ks ms v \<le> scoreOf ks ms u) \<and>
         (\<exists>pre m post. ms = pre @ m # post \<and> username m = u \<and> qualifies ks m \<and>
            (\<forall>m'\<in>set pre. qualifies ks m' \<longrightarrow>
               scoreOf ks ms (username m') < scoreOf ks ms u))"
    by auto
  moreover have "\<not> includes_str (toLowerCase input) ''user named'' \<and>
      \<not> literalUsernameShape (trim input) \<longrightarrow> resolveModerationTarget ms input = None"
    by (simp add: resolveModerationTarget_def Let_def)
  ultimately show ?thesis by blast
qed

theorem findUserByDescriptor_highest_then_earliest_witness:
  "findUserByDescriptor tieFixture ''toxic'' = Inr (Some ''bob'') \<and>
   scoreOf toxicKeywords tieFixture ''carol'' = 1 \<and>
   scoreOf toxicKeywords tieFixture ''bob'' = 2 \<and>
   scoreOf toxicKeywords tieFixture ''alice'' = 2 \<and>
   (\<forall>v. scoreOf toxicKeywords tieFixture v \<le> scoreOf toxicKeywords tieFixture ''bob'') \<and>
   (\<exists>pre m post. tieFixture = pre @ m # post \<and> username m = ''bob'' \<and>
      qualifies toxicKeywords m \<and>
      (\<forall>m'\<in>set pre. qualifies toxicKeywords m' \<longrightarrow>
         scoreOf toxicKeywords tieFixture (username m')
           < scoreOf toxicKeywords tieFixture ''bob'')) \<and>
   resolveModerationTarget tieFixture ''the toxic one'' = None"
proof -
  have k: "descriptorKeywords ''toxic'' = Some toxicKeywords"
    by code_simp
  have f: "findUserByDescriptor tieFixture ''toxic'' = Inr (Some ''bob'')"
    by code_simp
  have c: "scoreOf toxicKeywords tieFixture ''carol'' = 1"
    by code_simp
  have b: "scoreOf toxicKeywords tieFixture ''bob'' = 2"
    by code_simp
  have a: "scoreOf toxicKeywords tieFixture ''alice'' = 2"
    by code_simp
  have n: "\<not> includes_str (toLowerCase ''the toxic one'') ''user named'' \<and>
           \<not> literalUsernameShape (trim ''the toxic one'')"
    by code_simp
  from findUserByDescriptor_highest_then_earliest [OF f k, where input = "''the toxic one''"] n
  have "(\<forall>v. scoreOf toxicKeywords tieFixture v \<le> scoreOf toxicKeywords tieFixture ''bob'') \<and>
   (\<exists>pre m post. tieFixture = pre @ m # post \<and> username m = ''bob'' \<and>
      qualifies toxicKeywords m \<and>
      (\<forall>m'\<in>set pre. qualifies toxicKeywords m' \<longrightarrow>
         scoreOf toxicKeywords tieFixture (username m')
           < scoreOf toxicKeywords tieFixture ''bob'')) \<and>
   resolveModerationTarget tieFixture ''the toxic one'' = None"
    by blast
  with f c b a show ?thesis by blast
qed

text \<open>
  The claim as it was stated fails: over a log in which bob and alice tie at the highest
  score, bob's qualifying message being the earlier, resolving "toxic" returns neither: it
  takes the literal-username path and returns "toxic".
\<close>

theorem resolve_tie_counterexample:
  "scoreOf toxicKeywords tieFixture ''bob'' = 2 \<and>
   scoreOf toxicKeywords tieFixture ''alice'' = 2 \<and>
   scoreOf toxicKeywords tieFixture ''carol'' = 1 \<and>
   resolveModerationTarget tieFixture ''toxic'' = Some ''toxic'' \<and>
   resolveModerationTarget tieFixture ''toxic'' \<noteq> Some ''bob''"
  by code_simp

section \<open>The literal-username path\<close>

text \<open>
  C8. The claim is that an input containing a "user named X" phrase resolves through the
  candidate X: to the logged username that contains X, or to X. The code tests for the
  phrase in the lower-cased input and removes it from the input as written, with an
  expression that matches lower case only. So for the input "ban the User Named Bob" the
  test succeeds, nothing is removed, the candidate is the whole sentence, no logged
  username contains it, and the sentence itself is returned; the same sentence with the
  phrase in lower case yields the candidate "Bob" and resolves to the logged username
  "bob".
\<close>

theorem resolveModerationTarget_capitalised_phrase:
  "includes_str (toLowerCase ''ban the User Named Bob'') ''user named'' \<and>
   extractUsername ''ban the User Named Bob'' = ''ban the User Named Bob'' \<and>
   resolveModerationTarget toxicFixture ''ban the User Named Bob'' = Some ''ban the User Named Bob'' \<and>
   resolveModerationTarget toxicFixture ''ban the User Named Bob'' \<noteq> Some ''bob'' \<and>
   extractUsername ''ban the user named Bob'' = ''Bob'' \<and>
   resolveModerationTarget toxicFixture ''ban the user named Bob'' = Some ''bob''"
  by code_simp

section \<open>Properties of the moderation tools\<close>

lemma getRecentChatLog_20:
  "getRecentChatLog msgs 20 = map formatMessage (drop (length msgs - 20) msgs)"
  by (simp add: getRecentChatLog_def)

text \<open>
  C4. When the target of a call of the tool \<open>timeoutUser\<close> or \<open>banUser\<close> resolves to
  none (or to the empty string, which the handlers treat alike), the handler sends no
  request to the platform, leaves the state as it is, and returns, without throwing, the
  reply with the lines of the last 20 logged messages.
\<close>

theorem moderation_tools_fall_back_to_chat_log:
  assumes "resolveModerationTarget (recentMessages s) input = None
           \<or> resolveModerationTarget (recentMessages s) input = Some []"
  shows "timeoutUserTool w cfg s input reason = (Inr (chatLogReply (recentMessages s)), s) \<and>
         banUserTool w cfg s input reason = (Inr (chatLogReply (recentMessages s)), s) \<and>
         requests (snd (timeoutUserTool w cfg s input reason)) = requests s \<and>
         requests (snd (banUserTool w cfg s input reason)) = requests s \<and>
         chatLogReply (recentMessages s) =
           ''No explicit username provided. Here are the last 20 chat messages:'' @ newline
             @ joinWith newline
                 (map formatMessage (drop (length (recentMessages s) - 20) (recentMessages s)))"
proof -
  from assms have "\<not> isResolved (resolveModerationTarget (recentMessages s) input)"
    by (auto simp: isResolved_def)
  then have "timeoutUserTool w cfg s input reason = (Inr (chatLogReply (recentMessages s)), s)"
    and "banUserTool w cfg s input reason = (Inr (chatLogReply (recentMessages s)), s)"
    by (simp_all add: timeoutUserTool_def banUserTool_def Let_def)
  then show ?thesis by (simp add: chatLogReply_def getRecentChatLog_20)
qed

section \<open>Properties of the action executor\<close>

lemma makeTwitchApiCall_requests:
  "requests (snd (makeTwitchApiCall w s ep m b)) = requests s @ [Request m ep b]"
  by (simp add: makeTwitchApiCall_def Let_def split: sum.splits)

lemma makeTwitchApiCall_state:
  "snd (makeTwitchApiCall w s ep m b) = s\<lparr>requests := requests s @ [Request m ep b]\<rparr>"
  by (simp add: makeTwitchApiCall_def Let_def split: sum.splits)

lemma getUserIdFromUsername_snd:
  "snd (getUserIdFromUsername w s u) =
     snd (makeTwitchApiCall w s (''/users?login='' @ encodeURIComponent u) GET JUndefined)"
  by (simp add: getUserIdFromUsername_def split: prod.splits sum.splits)

lemma getUserIdFromUsername_state:
  "snd (getUserIdFromUsername w s u) =
     s\<lparr>requests := requests s @ [Request GET (''/users?login='' @ encodeURIComponent u) JUndefined]\<rparr>"
  by (simp only: getUserIdFromUsername_snd makeTwitchApiCall_state)

lemma exec_not_unknown:
  "execSendMessageToChat w cfg s p \<noteq> (Inr (failure (''Unknown tool: '' @ n)), s')"
  "execTimeoutUser w cfg s p \<noteq> (Inr (failure (''Unknown tool: '' @ n)), s')"
  "execBanUser w cfg s p \<noteq> (Inr (failure (''Unknown tool: '' @ n)), s')"
  "execCreateTwitchPoll w cfg s p \<noteq> (Inr (failure (''Unknown tool: '' @ n)), s')"
  "execCreateTwitchPrediction w cfg s p \<noteq> (Inr (failure (''Unknown tool: '' @ n)), s')"
  "execCreateTwitchClip w cfg s p \<noteq> (Inr (failure (''Unknown tool: '' @ n)), s')"
  "execUpdateStreamTitle w cfg s p \<noteq> (Inr (failure (''Unknown tool: '' @ n)), s')"
  "execUpdateStreamCategory w cfg s p \<noteq> (Inr (failure (''Unknown tool: '' @ n)), s')"
  by (auto simp: execSendMessageToChat_def execTimeoutUser_def execBanUser_def
        execCreateTwitchPoll_def execCreateTwitchPrediction_def execCreateTwitchClip_def
        execUpdateStreamTitle_def execUpdateStreamCategory_def failure_def succeeded_def
      split: prod.splits sum.splits option.splits if_splits)


lemma mcpExecutorBody_cases:
  "mcpExecutorBody w cfg s ''sendMessageToChat'' p = execSendMessageToChat w cfg s p"
  "mcpExecutorBody w cfg s ''timeoutUser'' p = execTimeoutUser w cfg s p"
  "mcpExecutorBody w cfg s ''banUser'' p = execBanUser w cfg s p"
  "mcpExecutorBody w cfg s ''createTwitchPoll'' p = execCreateTwitchPoll w cfg s p"
  "mcpExecutorBody w cfg s ''createTwitchPrediction'' p = execCreateTwitchPrediction w cfg s p"
  "mcpExecutorBody w cfg s ''createTwitchClip'' p = execCreateTwitchClip w cfg s p"
  "mcpExecutorBody w cfg s ''updateStreamTitle'' p = execUpdateStreamTitle w cfg s p"
  "mcpExecutorBody w cfg s ''updateStreamCategory'' p = execUpdateStreamCategory w cfg s p"
  by (simp_all add: mcpExecutorBody_def)


lemma catchAll_Inl:
  "\<not> nullishThrown e \<Longrightarrow> catchAll (Inl e, s') = (Inr (failure (caughtMessage e)), s')"
  by (cases e) (simp_all add: catchAll_def)


lemma snd_catchAll: "snd (catchAll outcome) = snd outcome"
  by (cases outcome) (auto simp: catchAll_def split: sum.splits)




lemma resolveTargetParam_readable:
  "resolveTargetParam msgs v = Inl e \<Longrightarrow> \<not> nullishThrown e"
  by (cases v) (auto simp: resolveTargetParam_def)















text \<open>
  C6 (amended). The executor recognises the eight tool names of its \<open>switch\<close>: each of
  them runs its action inside the \<open>catch\<close>, and for none of them does the \<open>switch\<close> produce
  the unknown-tool failure.
\<close>

theorem mcpExecutor_dispatch:
  "mcpExecutor w cfg s ''sendMessageToChat'' p = catchAll (execSendMessageToChat w cfg s p) \<and>
   mcpExecutor w cfg s ''timeoutUser'' p = catchAll (execTimeoutUser w cfg s p) \<and>
   mcpExecutor w cfg s ''banUser'' p = catchAll (execBanUser w cfg s p) \<and>
   mcpExecutor w cfg s ''createTwitchPoll'' p = catchAll (execCreateTwitchPoll w cfg s p) \<and>
   mcpExecutor w cfg s ''createTwitchPrediction'' p = catchAll (execCreateTwitchPrediction w cfg s p) \<and>
   mcpExecutor w cfg s ''createTwitchClip'' p = catchAll (execCreateTwitchClip w cfg s p) \<and>
   mcpExecutor w cfg s ''updateStreamTitle'' p = catchAll (execUpdateStreamTitle w cfg s p) \<and>
   mcpExecutor w cfg s ''updateStreamCategory'' p = catchAll (execUpdateStreamCategory w cfg s p) \<and>
   (toolName \<in> set recognizedTools \<longrightarrow>
      (\<forall>s'. mcpExecutorBody w cfg s toolName p \<noteq> (Inr (failure (''Unknown tool: '' @ toolName)), s')))"
proof -
  have "mcpExecutorBody w cfg s toolName p \<noteq> (Inr (failure (''Unknown tool: '' @ toolName)), s')"
    if "toolName \<in> set recognizedTools" for s'
  proof -
    from that consider
        "toolName = ''sendMessageToChat''" | "toolName = ''timeoutUser''"
      | "toolName = ''banUser''" | "toolName = ''createTwitchPoll''"
      | "toolName = ''createTwitchPrediction''" | "toolName = ''createTwitchClip''"
      | "toolName = ''updateStreamTitle''" | "toolName = ''updateStreamCategory''"
      unfolding recognizedTools_def by fastforce
    then show ?thesis
    proof cases
      case 1 then show ?thesis by (simp only: mcpExecutorBody_cases exec_not_unknown not_False_eq_True)
    next
      case 2 then show ?thesis by (simp only: mcpExecutorBody_cases exec_not_unknown not_False_eq_True)
    next
      case 3 then show ?thesis by (simp only: mcpExecutorBody_cases exec_not_unknown not_False_eq_True)
    next
      case 4 then show ?thesis by (simp only: mcpExecutorBody_cases exec_not_unknown not_False_eq_True)
    next
      case 5 then show ?thesis by (simp only: mcpExecutorBody_cases exec_not_unknown not_False_eq_True)
    next
      case 6 then show ?thesis by (simp only: mcpExecutorBody_cases exec_not_unknown not_False_eq_True)
    next
      case 7 then show ?thesis by (simp only: mcpExecutorBody_cases exec_not_unknown not_False_eq_True)
    next
      case 8 then show ?thesis by (simp only: mcpExecutorBody_cases exec_not_unknown not_False_eq_True)
    qed
  qed
  then show ?thesis by (simp only: mcpExecutor_def mcpExecutorBody_cases) simp
qed

theorem mcpExecutor_dispatch_witness:
  "''timeoutUser'' \<in> set recognizedTools \<and>
   mcpExecutor exampleWorld exampleConfig exampleSys ''timeoutUser'' exampleParameters =
     catchAll (execTimeoutUser exampleWorld exampleConfig exampleSys exampleParameters) \<and>
   (\<forall>s'. mcpExecutorBody exampleWorld exampleConfig exampleSys ''timeoutUser'' exampleParameters
          \<noteq> (Inr (failure (''Unknown tool: '' @ ''timeoutUser'')), s')) \<and>
   fst (mcpExecutor exampleWorld exampleConfig exampleSys ''timeoutUser'' exampleParameters) =
     Inr \<lparr>success = True,
          result = JObj [(''user'', JStr ''alice''), (''duration'', JNum 300),
                         (''reason'', JStr ''Toxic spam'')],
          error = None\<rparr>"
proof -
  have m: "''timeoutUser'' \<in> set recognizedTools" by code_simp
  have r: "fst (mcpExecutor exampleWorld exampleConfig exampleSys ''timeoutUser'' exampleParameters) =
     Inr \<lparr>success = True,
          result = JObj [(''user'', JStr ''alice''), (''duration'', JNum 300),
                         (''reason'', JStr ''Toxic spam'')],
          error = None\<rparr>"
    by code_simp
  from mcpExecutor_dispatch [of exampleWorld exampleConfig exampleSys exampleParameters "''timeoutUser''"]
    m r show ?thesis by blast
qed

text \<open>The action names of the specification are not among the recognised ones: each of
  them gets the unknown-tool failure.\<close>

theorem spec_action_names_counterexample:
  "fst (mcpExecutor exampleWorld exampleConfig exampleSys ''send-chat-message'' exampleParameters)
     = Inr (failure ''Unknown tool: send-chat-message'') \<and>
   fst (mcpExecutor exampleWorld exampleConfig exampleSys ''timeout-user'' exampleParameters)
     = Inr (failure ''Unknown tool: timeout-user'') \<and>
   fst (mcpExecutor exampleWorld exampleConfig exampleSys ''ban-user'' exampleParameters)
     = Inr (failure ''Unknown tool: ban-user'') \<and>
   fst (mcpExecutor exampleWorld exampleConfig exampleSys ''create-poll'' exampleParameters)
     = Inr (failure ''Unknown tool: create-poll'') \<and>
   fst (mcpExecutor exampleWorld exampleConfig exampleSys ''create-prediction'' exampleParameters)
     = Inr (failure ''Unknown tool: create-prediction'') \<and>
   fst (mcpExecutor exampleWorld exampleConfig exampleSys ''create-clip'' exampleParameters)
     = Inr (failure ''Unknown tool: create-clip'') \<and>
   fst (mcpExecutor exampleWorld exampleConfig exampleSys ''update-title'' exampleParameters)
     = Inr (failure ''Unknown tool: update-title'') \<and>
   fst (mcpExecutor exampleWorld exampleConfig exampleSys ''update-category'' exampleParameters)
     = Inr (failure ''Unknown tool: update-category'')"
  by (simp add: mcpExecutor_def mcpExecutorBody_def catchAll_def)

section \<open>Properties of the timeout duration\<close>

lemma includes_lower:
  "includes_str s k \<Longrightarrow> toLowerCase k = k \<Longrightarrow> includes_str (toLowerCase s) k"
  unfolding includes_str_def toLowerCase_def
  using map_mono_sublist [of k s lowerChar] by simp

text \<open>
  C7. \<open>guessTimeoutDuration\<close> tests the lower-cased reason for the families in order:
  "spam", "caps" or "emote" give 300 seconds; otherwise "toxic", "rude" or "mean" give
  1800; otherwise "severe" or "serious" give 3600; otherwise 600. A reason that contains a
  keyword as written (in lower case) contains it after lower-casing too. The executor uses
  the guess for a timeout whose parameters have no duration, and sends it in the request.
\<close>

theorem guessTimeoutDuration_families:
  "guessTimeoutDuration reason =
     (if includes_str (toLowerCase reason) ''spam'' \<or> includes_str (toLowerCase reason) ''caps''
         \<or> includes_str (toLowerCase reason) ''emote'' then 300
      else if includes_str (toLowerCase reason) ''toxic'' \<or> includes_str (toLowerCase reason) ''rude''
         \<or> includes_str (toLowerCase reason) ''mean'' then 1800
      else if includes_str (toLowerCase reason) ''severe''
         \<or> includes_str (toLowerCase reason) ''serious'' then 3600
      else 600) \<and>
   (includes_str reason ''spam'' \<or> includes_str reason ''caps'' \<or> includes_str reason ''emote''
      \<longrightarrow> guessTimeoutDuration reason = 300) \<and>
   (p ''duration'' = JUndefined \<and> p ''reason'' = JStr reason \<longrightarrow>
      timeoutDuration p = Inr (JNum (int (guessTimeoutDuration reason)))) \<and>
   (p ''duration'' = JUndefined \<and> p ''reason'' = JUndefined \<longrightarrow>
      timeoutDuration p = Inr (JNum 600)) \<and>
   (p ''duration'' = JUndefined \<and> p ''reason'' = JStr reason \<and>
    resolveTargetParam (recentMessages s) (p ''usernameOrDescriptor'') = Inr (Some u) \<and> u \<noteq> [] \<and>
    truthy (fst (getUserIdFromUsername w s u)) \<longrightarrow>
      last (requests (snd (mcpExecutor w cfg s ''timeoutUser'' p))) =
        Request POST ''/moderation/bans''
          (JObj [(''broadcaster_id'', JStr (twitchBroadcasterId cfg)),
                 (''moderator_id'', JStr (twitchBroadcasterId cfg)),
                 (''data'', JObj
                    [(''user_id'', fst (getUserIdFromUsername w s u)),
                     (''reason'', orElse (JStr reason) (JStr ''Autonomous moderation'')),
                     (''duration'', JNum (int (guessTimeoutDuration reason)))])]))"
proof (intro conjI impI)
  show "guessTimeoutDuration reason =
     (if includes_str (toLowerCase reason) ''spam'' \<or> includes_str (toLowerCase reason) ''caps''
         \<or> includes_str (toLowerCase reason) ''emote'' then 300
      else if includes_str (toLowerCase reason) ''toxic'' \<or> includes_str (toLowerCase reason) ''rude''
         \<or> includes_str (toLowerCase reason) ''mean'' then 1800
      else if includes_str (toLowerCase reason) ''severe''
         \<or> includes_str (toLowerCase reason) ''serious'' then 3600
      else 600)"
    by (simp add: guessTimeoutDuration_def Let_def)
next
  assume "includes_str reason ''spam'' \<or> includes_str reason ''caps'' \<or> includes_str reason ''emote''"
  moreover have "toLowerCase ''spam'' = ''spam''" "toLowerCase ''caps'' = ''caps''"
    "toLowerCase ''emote'' = ''emote''"
    by (simp_all add: toLowerCase_def lowerChar_def)
  ultimately have "includes_str (toLowerCase reason) ''spam'' \<or> includes_str (toLowerCase reason) ''caps''
      \<or> includes_str (toLowerCase reason) ''emote''"
    using includes_lower by blast
  then show "guessTimeoutDuration reason = 300"
    by (simp add: guessTimeoutDuration_def Let_def)
next
  assume "p ''duration'' = JUndefined \<and> p ''reason'' = JStr reason"
  then show "timeoutDuration p = Inr (JNum (int (guessTimeoutDuration reason)))"
    by (cases "reason = []") (simp_all add: timeoutDuration_def orElse_def)
next
  assume "p ''duration'' = JUndefined \<and> p ''reason'' = JUndefined"
  then show "timeoutDuration p = Inr (JNum 600)"
    by (simp add: timeoutDuration_def orElse_def guessTimeoutDuration_def Let_def
          toLowerCase_def includes_str_def)
next
  assume a: "p ''duration'' = JUndefined \<and> p ''reason'' = JStr reason \<and>
    resolveTargetParam (recentMessages s) (p ''usernameOrDescriptor'') = Inr (Some u) \<and> u \<noteq> [] \<and>
    truthy (fst (getUserIdFromUsername w s u))"
  obtain userId s1 where g: "getUserIdFromUsername w s u = (userId, s1)"
    by (cases "getUserIdFromUsername w s u")
  have d: "timeoutDuration p = Inr (JNum (int (guessTimeoutDuration reason)))"
    using a by (cases "reason = []") (simp_all add: timeoutDuration_def orElse_def)
  let ?body = "JObj [(''broadcaster_id'', JStr (twitchBroadcasterId cfg)),
                 (''moderator_id'', JStr (twitchBroadcasterId cfg)),
                 (''data'', JObj
                    [(''user_id'', userId),
                     (''reason'', orElse (JStr reason) (JStr ''Autonomous moderation'')),
                     (''duration'', JNum (int (guessTimeoutDuration reason)))])]"
  have "snd (mcpExecutor w cfg s ''timeoutUser'' p) =
          snd (makeTwitchApiCall w s1 ''/moderation/bans'' POST ?body)"
    using a g d
    by (simp add: mcpExecutor_def mcpExecutorBody_def execTimeoutUser_def snd_catchAll
          isResolved_def split: prod.splits sum.splits)
  then show "last (requests (snd (mcpExecutor w cfg s ''timeoutUser'' p))) =
        Request POST ''/moderation/bans''
          (JObj [(''broadcaster_id'', JStr (twitchBroadcasterId cfg)),
                 (''moderator_id'', JStr (twitchBroadcasterId cfg)),
                 (''data'', JObj
                    [(''user_id'', fst (getUserIdFromUsername w s u)),
                     (''reason'', orElse (JStr reason) (JStr ''Autonomous moderation'')),
                     (''duration'', JNum (int (guessTimeoutDuration reason)))])])"
    using g by (simp add: makeTwitchApiCall_requests)
qed

text \<open>
  C9. A timeout or a ban through \<open>mcpExecutor\<close> whose target does not resolve returns the
  failure "Could not resolve target user" with the state unchanged; one whose target
  resolves to a name for which the lookup of the user identifier returns \<open>null\<close> returns
  the failure "Could not resolve user ID for name", having sent the lookup request only.
  A target parameter that makes the resolution throw comes back as a failure with the
  message of the error. In each case the executor returns and does not throw.
\<close>

theorem mcpExecutor_unresolved_target_fails:
  assumes "toolName = ''timeoutUser'' \<or> toolName = ''banUser''"
  shows "(resolveTargetParam (recentMessages s) (p ''usernameOrDescriptor'') = Inr target \<and>
            (target = None \<or> target = Some []) \<longrightarrow>
          mcpExecutor w cfg s toolName p =
            (Inr \<lparr>success = False, result = JNull, error = Some ''Could not resolve target user''\<rparr>, s)) \<and>
         (resolveTargetParam (recentMessages s) (p ''usernameOrDescriptor'') = Inr (Some u) \<and> u \<noteq> [] \<and>
            fst (getUserIdFromUsername w s u) = JNull \<longrightarrow>
          mcpExecutor w cfg s toolName p =
            (Inr \<lparr>success = False, result = JNull,
                  error = Some (''Could not resolve user ID for '' @ u)\<rparr>,
             s\<lparr>requests := requests s @
                  [Request GET (''/users?login='' @ encodeURIComponent u) JUndefined]\<rparr>)) \<and>
         (resolveTargetParam (recentMessages s) (p ''usernameOrDescriptor'') = Inl e \<longrightarrow>
          mcpExecutor w cfg s toolName p =
            (Inr \<lparr>success = False, result = JNull, error = Some (caughtMessage e)\<rparr>, s))"
proof (intro conjI impI)
  assume a: "resolveTargetParam (recentMessages s) (p ''usernameOrDescriptor'') = Inr target \<and>
            (target = None \<or> target = Some [])"
  then have "\<not> isResolved target" by (auto simp: isResolved_def)
  with a have "execTimeoutUser w cfg s p = (Inr (failure ''Could not resolve target user''), s)"
    and "execBanUser w cfg s p = (Inr (failure ''Could not resolve target user''), s)"
    by (simp_all add: execTimeoutUser_def execBanUser_def)
  with assms show "mcpExecutor w cfg s toolName p =
            (Inr \<lparr>success = False, result = JNull, error = Some ''Could not resolve target user''\<rparr>, s)"
    by (auto simp: mcpExecutor_def mcpExecutorBody_cases catchAll_def failure_def)
next
  assume a: "resolveTargetParam (recentMessages s) (p ''usernameOrDescriptor'') = Inr (Some u) \<and> u \<noteq> [] \<and>
            fst (getUserIdFromUsername w s u) = JNull"
  let ?s1 = "s\<lparr>requests := requests s @
                  [Request GET (''/users?login='' @ encodeURIComponent u) JUndefined]\<rparr>"
  have g: "getUserIdFromUsername w s u = (JNull, ?s1)"
    using a getUserIdFromUsername_state [of w s u]
    by (cases "getUserIdFromUsername w s u") simp
  have r: "isResolved (Some u)" using a by (simp add: isResolved_def)
  have "execTimeoutUser w cfg s p = (Inr (failure (''Could not resolve user ID for '' @ u)), ?s1)"
    and "execBanUser w cfg s p = (Inr (failure (''Could not resolve user ID for '' @ u)), ?s1)"
    using a r by (simp_all add: execTimeoutUser_def execBanUser_def g)
  with assms show "mcpExecutor w cfg s toolName p =
            (Inr \<lparr>success = False, result = JNull,
                  error = Some (''Could not resolve user ID for '' @ u)\<rparr>, ?s1)"
    by (auto simp: mcpExecutor_def mcpExecutorBody_cases catchAll_def failure_def)
next
  assume a: "resolveTargetParam (recentMessages s) (p ''usernameOrDescriptor'') = Inl e"
  then have "execTimeoutUser w cfg s p = (Inl e, s)" and "execBanUser w cfg s p = (Inl e, s)"
    by (simp_all add: execTimeoutUser_def execBanUser_def)
  moreover from a have "\<not> nullishThrown e" by (rule resolveTargetParam_readable)
  ultimately show "mcpExecutor w cfg s toolName p =
            (Inr \<lparr>success = False, result = JNull, error = Some (caughtMessage e)\<rparr>, s)"
    using assms by (auto simp: mcpExecutor_def mcpExecutorBody_cases catchAll_Inl failure_def)
qed

section \<open>Properties of the rendering of values\<close>



section \<open>The properties at concrete inputs\<close>

theorem moderation_tools_fall_back_to_chat_log_witness:
  "resolveModerationTarget (recentMessages exampleSys) ''the toxic one'' = None \<and>
   timeoutUserTool exampleWorld exampleConfig exampleSys ''the toxic one'' None =
     (Inr (chatLogReply (recentMessages exampleSys)), exampleSys) \<and>
   banUserTool exampleWorld exampleConfig exampleSys ''the toxic one'' None =
     (Inr (chatLogReply (recentMessages exampleSys)), exampleSys) \<and>
   requests (snd (timeoutUserTool exampleWorld exampleConfig exampleSys ''the toxic one'' None)) = [] \<and>
   requests (snd (banUserTool exampleWorld exampleConfig exampleSys ''the toxic one'' None)) = [] \<and>
   chatLogReply (recentMessages exampleSys) =
     ''No explicit username provided. Here are the last 20 chat messages:'' @ newline
       @ ''alice: you're an idiot'' @ newline @ ''bob: idiot much?'' @ newline @ ''alice: so dumb''"
proof -
  have n: "resolveModerationTarget (recentMessages exampleSys) ''the toxic one'' = None"
    by code_simp
  then have h: "resolveModerationTarget (recentMessages exampleSys) ''the toxic one'' = None
           \<or> resolveModerationTarget (recentMessages exampleSys) ''the toxic one'' = Some []"
    by simp
  have r: "requests exampleSys = []" by (simp add: exampleSys_def)
  have c: "chatLogReply (recentMessages exampleSys) =
     ''No explicit username provided. Here are the last 20 chat messages:'' @ newline
       @ ''alice: you're an idiot'' @ newline @ ''bob: idiot much?'' @ newline @ ''alice: so dumb''"
    by code_simp
  from moderation_tools_fall_back_to_chat_log [OF h, where w = exampleWorld and cfg = exampleConfig and reason = None] n r c
  show ?thesis by simp
qed


theorem guessTimeoutDuration_families_witness:
  "includes_str ''Toxic spam'' ''spam'' \<and>
   guessTimeoutDuration ''Toxic spam'' = 300 \<and>
   guessTimeoutDuration ''you are RUDE'' = 1800 \<and>
   guessTimeoutDuration ''a serious offence'' = 3600 \<and>
   guessTimeoutDuration ''inappropriate behavior'' = 600 \<and>
   exampleParameters ''duration'' = JUndefined \<and>
   exampleParameters ''reason'' = JStr ''Toxic spam'' \<and>
   timeoutDuration exampleParameters = Inr (JNum 300) \<and>
   noParameters ''reason'' = JUndefined \<and>
   timeoutDuration noParameters = Inr (JNum 600) \<and>
   resolveTargetParam (recentMessages exampleSys) (exampleParameters ''usernameOrDescriptor'')
     = Inr (Some ''alice'') \<and>
   truthy (fst (getUserIdFromUsername exampleWorld exampleSys ''alice'')) \<and>
   last (requests (snd (mcpExecutor exampleWorld exampleConfig exampleSys ''timeoutUser'' exampleParameters))) =
     Request POST ''/moderation/bans''
       (JObj [(''broadcaster_id'', JStr ''42''), (''moderator_id'', JStr ''42''),
              (''data'', JObj [(''user_id'', JStr ''1001''), (''reason'', JStr ''Toxic spam''),
                               (''duration'', JNum 300)])])"
proof -
  have i: "includes_str ''Toxic spam'' ''spam''" by code_simp
  have g: "guessTimeoutDuration ''you are RUDE'' = 1800"
    "guessTimeoutDuration ''a serious offence'' = 3600"
    "guessTimeoutDuration ''inappropriate behavior'' = 600"
    by code_simp+
  have p: "exampleParameters ''duration'' = JUndefined"
    "exampleParameters ''reason'' = JStr ''Toxic spam''"
    "noParameters ''duration'' = JUndefined" "noParameters ''reason'' = JUndefined"
    by (simp_all add: exampleParameters_def noParameters_def)
  have t: "resolveTargetParam (recentMessages exampleSys) (exampleParameters ''usernameOrDescriptor'')
     = Inr (Some ''alice'')"
    by code_simp
  have u: "fst (getUserIdFromUsername exampleWorld exampleSys ''alice'') = JStr ''1001''"
    by code_simp
  have c: "twitchBroadcasterId exampleConfig = ''42''" by (simp add: exampleConfig_def)
  have o: "orElse (JStr ''Toxic spam'') (JStr ''Autonomous moderation'') = JStr ''Toxic spam''"
    by (simp add: orElse_def)
  note th1 = guessTimeoutDuration_families
         [where reason = "''Toxic spam''" and p = exampleParameters and s = exampleSys
            and u = "''alice''" and w = exampleWorld and cfg = exampleConfig]
  note th2 = guessTimeoutDuration_families
         [where reason = "''Toxic spam''" and p = noParameters and s = exampleSys
            and u = "''alice''" and w = exampleWorld and cfg = exampleConfig]
  from th1 i have g0: "guessTimeoutDuration ''Toxic spam'' = 300" by blast
  from th1 p have d1: "timeoutDuration exampleParameters = Inr (JNum 300)"
    by (simp add: g0)
  from th2 p have d2: "timeoutDuration noParameters = Inr (JNum 600)" by blast
  from th1 p t u
  have "last (requests (snd (mcpExecutor exampleWorld exampleConfig exampleSys ''timeoutUser'' exampleParameters))) =
     Request POST ''/moderation/bans''
       (JObj [(''broadcaster_id'', JStr (twitchBroadcasterId exampleConfig)),
              (''moderator_id'', JStr (twitchBroadcasterId exampleConfig)),
              (''data'', JObj
                 [(''user_id'', fst (getUserIdFromUsername exampleWorld exampleSys ''alice'')),
                  (''reason'', orElse (JStr ''Toxic spam'') (JStr ''Autonomous moderation'')),
                  (''duration'', JNum (int (guessTimeoutDuration ''Toxic spam'')))])])"
    by simp
  then have l: "last (requests (snd (mcpExecutor exampleWorld exampleConfig exampleSys ''timeoutUser'' exampleParameters))) =
     Request POST ''/moderation/bans''
       (JObj [(''broadcaster_id'', JStr ''42''), (''moderator_id'', JStr ''42''),
              (''data'', JObj [(''user_id'', JStr ''1001''), (''reason'', JStr ''Toxic spam''),
                               (''duration'', JNum 300)])])"
    by (simp only: u c o g0) simp
  from i g0 g p d1 d2 t u l show ?thesis by simp
qed

theorem mcpExecutor_unresolved_target_fails_witness:
  "resolveTargetParam (recentMessages exampleSys) (descriptorParameters ''usernameOrDescriptor'') = Inr None \<and>
   mcpExecutor exampleWorld exampleConfig exampleSys ''timeoutUser'' descriptorParameters =
     (Inr \<lparr>success = False, result = JNull, error = Some ''Could not resolve target user''\<rparr>, exampleSys) \<and>
   resolveTargetParam (recentMessages exampleSys) (strangerParameters ''usernameOrDescriptor'')
     = Inr (Some ''zed_77'') \<and>
   fst (getUserIdFromUsername exampleWorld exampleSys ''zed_77'') = JNull \<and>
   mcpExecutor exampleWorld exampleConfig exampleSys ''banUser'' strangerParameters =
     (Inr \<lparr>success = False, result = JNull,
           error = Some (''Could not resolve user ID for '' @ ''zed_77'')\<rparr>,
      exampleSys\<lparr>requests := requests exampleSys @
        [Request GET (''/users?login='' @ encodeURIComponent ''zed_77'') JUndefined]\<rparr>)"
proof -
  have a: "resolveTargetParam (recentMessages exampleSys) (descriptorParameters ''usernameOrDescriptor'') = Inr None"
    by code_simp
  have b: "resolveTargetParam (recentMessages exampleSys) (strangerParameters ''usernameOrDescriptor'')
     = Inr (Some ''zed_77'')"
    by code_simp
  have c: "fst (getUserIdFromUsername exampleWorld exampleSys ''zed_77'') = JNull"
    by code_simp
  have ne: "''zed_77'' \<noteq> []" by simp
  have t1: "''timeoutUser'' = ''timeoutUser'' \<or> ''timeoutUser'' = ''banUser''" by simp
  have t2: "''banUser'' = ''timeoutUser'' \<or> ''banUser'' = ''banUser''" by simp
  from mcpExecutor_unresolved_target_fails
         [OF t1, where s = exampleSys and p = descriptorParameters and target = None
            and w = exampleWorld and cfg = exampleConfig] a
  have 1: "mcpExecutor exampleWorld exampleConfig exampleSys ''timeoutUser'' descriptorParameters =
     (Inr \<lparr>success = False, result = JNull, error = Some ''Could not resolve target user''\<rparr>, exampleSys)"
    by blast
  from mcpExecutor_unresolved_target_fails
         [OF t2, where s = exampleSys and p = strangerParameters and u = "''zed_77''"
            and w = exampleWorld and cfg = exampleConfig] b c ne
  have 2: "mcpExecutor exampleWorld exampleConfig exampleSys ''banUser'' strangerParameters =
     (Inr \<lparr>success = False, result = JNull,
           error = Some (''Could not resolve user ID for '' @ ''zed_77'')\<rparr>,
      exampleSys\<lparr>requests := requests exampleSys @
        [Request GET (''/users?login='' @ encodeURIComponent ''zed_77'') JUndefined]\<rparr>)"
    by blast
  from a 1 b c 2 show ?thesis by blast
qed


end
